theory Spec2Isabelle
  imports Main
begin

section \<open>VM reconciliation engine of cluster-api-provider-ics\<close>

text \<open>
  A shallow embedding of \<^verbatim>\<open>pkg/services/goclient/service.go\<close> (the two entry points
  \<^verbatim>\<open>ReconcileVM\<close> and \<^verbatim>\<open>DestroyVM\<close> with their helpers) and of the discovery poller of
  the cluster controller (\<^verbatim>\<open>reconcileICSClusterWhenAPIServerIsOnline\<close>).

  One pass is a pure function of the resource and of what the collaborators (compute
  platform, secret store, resource repository) answer. The answers are the fields of a
  record \<open>platform\<close>; every call that leaves the process is appended to the field
  \<open>calls\<close> of the context, so that "which remote calls were issued" is a property of
  the returned context. Go's \<^verbatim>\<open>[]byte\<close> and \<^verbatim>\<open>string\<close> are both sequences of 8-bit
  characters and are modelled by \<open>string\<close>. Logging is not modelled.
\<close>

subsection \<open>Errors\<close>

text \<open>
  \<^verbatim>\<open>errors.New\<close>, \<^verbatim>\<open>errors.Errorf\<close> and \<^verbatim>\<open>errors.Wrapf\<close> keep their message (format
  string and arguments). \<open>ErrNotFound\<close> is the error on which \<^verbatim>\<open>isNotFound\<close> answers
  true; \<open>ErrRemote\<close> is any other error produced by a collaborator (connectivity,
  authentication, ...). \<open>CorruptInputError\<close> is the error of \<^verbatim>\<open>encoding/base64\<close>.
\<close>

datatype error =
    ErrNotFound string
  | ErrRemote string
  | New string
  | Errorf string "string list"
  | Wrapf error string "string list"
  | CorruptInputError

subsection \<open>Data model\<close>

datatype VirtualMachineState =
    VirtualMachineStateNotFound
  | VirtualMachineStatePending
  | VirtualMachineStateReady

datatype VirtualMachinePowerState =
    VirtualMachinePowerStatePoweredOn
  | VirtualMachinePowerStatePoweredOff
  | VirtualMachinePowerStateSuspended

record NetworkStatus =
  Connected :: bool
  IPAddrs :: "string list option"
  MACAddr :: string
  NetworkName :: string

text \<open>\<^verbatim>\<open>infrav1.VirtualMachine\<close>, the value both entry points return.\<close>

record VirtualMachine =
  Name :: string
  BiosUUID :: string
  UID :: string
  State :: VirtualMachineState
  Network :: "NetworkStatus list"

record ObjectReference =
  Ref_Namespace :: string
  Ref_Name :: string

text \<open>
  \<^verbatim>\<open>infrav1.ICSVM\<close>, restricted to the fields the service reads or writes:
  \<^verbatim>\<open>Spec.BootstrapRef\<close>, \<^verbatim>\<open>Status.TaskRef\<close>, \<^verbatim>\<open>Status.Addresses\<close> (\<open>None\<close> is Go's nil
  slice), the failure message recorded by the task guard, and whether the resource
  carries the control-plane label (\<^verbatim>\<open>IsControlPlaneMachine\<close>).
\<close>

record ICSVM =
  GroupVersionKind :: string
  ICSVM_Namespace :: string
  ICSVM_Name :: string
  Spec_BootstrapRef :: "ObjectReference option"
  Status_TaskRef :: string
  Status_Addresses :: "string list option"
  Status_FailureMessage :: "string option"
  IsControlPlaneMachine :: bool

text \<open>The objects of the platform SDK (\<^verbatim>\<open>ics-go-sdk\<close>), restricted to the fields used.\<close>

record sdk_VirtualMachine =
  ID :: string
  UUID :: string
  Status :: string
  HostID :: string
  MemoryInByte :: int

record sdk_Host =
  FreeMemoryInByte :: int
  LogicFreeMemoryInByte :: int

record sdk_Task =
  TaskId :: string

record sdk_TaskInfo =
  TaskInfo_State :: string
  TaskInfo_Error :: string

subsection \<open>Remote calls and the collaborators' answers\<close>

datatype call =
    CallGetTask string
  | CallFindVM
  | CallGetVM string
  | CallGetHost string
  | CallGetNetworkStatus string
  | CallSecretGet string string
  | CallCreateVM string
  | CallPowerOnVM string
  | CallPowerOffVM string
  | CallDeleteVMWithCheckParams string bool bool string
  | CallWaitForResult string
  | CallPatch
  | ArmTaskCompletion string
  | ArmNetworkIsReady string

text \<open>What the platform reports about a stored task reference.\<close>

datatype task_report = TaskGone | TaskPending | TaskSucceeded | TaskFailed string

text \<open>
  The answers of the collaborators during one pass. \<^verbatim>\<open>GetVM\<close> is called up to three
  times in a pass (identity sync, power probe, capacity check) and the platform may
  answer each call differently: \<open>GetVM_answer P k ref\<close> is the answer to the \<open>k\<close>-th
  call (counted from 0) of the pass.
\<close>

record platform =
  GetTask_answer :: "string \<Rightarrow> task_report"
  findVM_answer :: "error + string"
  GetVM_answer :: "nat \<Rightarrow> string \<Rightarrow> error + sdk_VirtualMachine"
  GetHost_answer :: "string \<Rightarrow> error + sdk_Host"
  GetNetworkStatus_answer :: "string \<Rightarrow> error + NetworkStatus list"
  sanitizeIPAddrs :: "string list option \<Rightarrow> string list option"
  SecretGet_answer :: "string \<Rightarrow> string \<Rightarrow> error + (string \<rightharpoonup> string)"
  CreateVM_answer :: "string \<Rightarrow> error option"
  PowerOnVM_answer :: "string \<Rightarrow> error + sdk_Task"
  PowerOffVM_answer :: "string \<Rightarrow> error + sdk_Task"
  DeleteVMWithCheckParams_answer :: "string \<Rightarrow> error + sdk_Task"
  WaitForResult_answer :: "sdk_Task \<Rightarrow> sdk_TaskInfo option"
  Patch_answer :: "error option"

text \<open>
  \<^verbatim>\<open>context.VMContext\<close>: the resource (shared by pointer, so every copy of the context
  sees its updates), the session password, and the calls issued so far in this pass.
\<close>

record VMContext =
  ICSVM :: ICSVM
  Session_Password :: string
  calls :: "call list"

text \<open>
  \<^verbatim>\<open>virtualMachineContext\<close>: the context, the managed object reference of the remote
  VM, and \<^verbatim>\<open>State\<close>, the pointer to the result under construction.
\<close>

record virtualMachineContext =
  Ctx :: VMContext
  Ref :: string
  VMState :: VirtualMachine

definition issue :: "call \<Rightarrow> VMContext \<Rightarrow> VMContext" where
  "issue c ctx = ctx\<lparr>calls := calls ctx @ [c]\<rparr>"

definition issue_vm :: "call \<Rightarrow> virtualMachineContext \<Rightarrow> virtualMachineContext" where
  "issue_vm c ctx = ctx\<lparr>Ctx := issue c (Ctx ctx)\<rparr>"

fun is_GetVM :: "call \<Rightarrow> bool" where
  "is_GetVM (CallGetVM r) = True"
| "is_GetVM _ = False"

definition GetVM ::
  "platform \<Rightarrow> virtualMachineContext \<Rightarrow> string \<Rightarrow> (error + sdk_VirtualMachine) \<times> virtualMachineContext"
where
  "GetVM P ctx r =
     (GetVM_answer P (length (filter is_GetVM (calls (Ctx ctx)))) r, issue_vm (CallGetVM r) ctx)"

text \<open>\<^verbatim>\<open>VMContext.String\<close> of \<^verbatim>\<open>pkg/context/vm_context.go\<close>.\<close>

definition String :: "VMContext \<Rightarrow> string" where
  "String c = GroupVersionKind (ICSVM c) @ '' '' @ ICSVM_Namespace (ICSVM c) @ ''/'' @ ICSVM_Name (ICSVM c)"

subsection \<open>Standard base64 (\<^verbatim>\<open>encoding/base64\<close>, \<^verbatim>\<open>StdEncoding\<close>)\<close>

text \<open>
  The Go standard library is not part of the repository. \<open>EncodeToString\<close> and
  \<open>DecodeString\<close> follow \<^verbatim>\<open>Encoding.Encode\<close> and \<^verbatim>\<open>Encoding.decodeQuantum\<close> for the
  standard alphabet with padding, in the default, non-strict mode: three bytes
  become four characters, a last group of one or two bytes is padded with \<open>=\<close>; the
  decoder drops carriage returns and line feeds, accepts only whole groups of four
  characters, with padding in the last group only, and fails with
  \<open>CorruptInputError\<close> otherwise (the offset carried by Go's error is left out).
\<close>

definition encodeStd :: string where
  "encodeStd = ''ABCDEFGHIJKLMNOPQRSTUVWXYZabcdefghijklmnopqrstuvwxyz0123456789+/''"

definition StdPadding :: char where
  "StdPadding = CHR ''=''"

fun EncodeToString :: "string \<Rightarrow> string" where
  "EncodeToString (a # b # c # src) =
     (let val = (of_char a :: nat) * 65536 + of_char b * 256 + of_char c in
        encodeStd ! (val div 262144 mod 64) # encodeStd ! (val div 4096 mod 64) #
        encodeStd ! (val div 64 mod 64) # encodeStd ! (val mod 64) # EncodeToString src)"
| "EncodeToString [a, b] =
     (let val = (of_char a :: nat) * 65536 + of_char b * 256 in
        [encodeStd ! (val div 262144 mod 64), encodeStd ! (val div 4096 mod 64),
         encodeStd ! (val div 64 mod 64), StdPadding])"
| "EncodeToString [a] =
     (let val = (of_char a :: nat) * 65536 in
        [encodeStd ! (val div 262144 mod 64), encodeStd ! (val div 4096 mod 64),
         StdPadding, StdPadding])"
| "EncodeToString [] = []"

fun index_of :: "char \<Rightarrow> string \<Rightarrow> nat option" where
  "index_of c [] = None"
| "index_of c (x # xs) = (if c = x then Some 0 else map_option Suc (index_of c xs))"

definition decodeMap :: "char \<Rightarrow> nat option" where
  "decodeMap c = index_of c encodeStd"

fun decodeQuanta :: "string \<Rightarrow> error + string" where
  "decodeQuanta [] = Inr []"
| "decodeQuanta (a # b # c # d # src) =
     (if src = [] \<and> d = StdPadding then
        (if c = StdPadding then
           (case (decodeMap a, decodeMap b) of
              (Some i0, Some i1) \<Rightarrow>
                (let val = i0 * 262144 + i1 * 4096 in Inr [char_of (val div 65536)])
            | _ \<Rightarrow> Inl CorruptInputError)
         else
           (case (decodeMap a, decodeMap b, decodeMap c) of
              (Some i0, Some i1, Some i2) \<Rightarrow>
                (let val = i0 * 262144 + i1 * 4096 + i2 * 64
                 in Inr [char_of (val div 65536), char_of (val div 256)])
            | _ \<Rightarrow> Inl CorruptInputError))
      else
        (case (decodeMap a, decodeMap b, decodeMap c, decodeMap d) of
           (Some i0, Some i1, Some i2, Some i3) \<Rightarrow>
             (let val = i0 * 262144 + i1 * 4096 + i2 * 64 + i3 in
                case decodeQuanta src of
                  Inl err \<Rightarrow> Inl err
                | Inr dst \<Rightarrow>
                    Inr (char_of (val div 65536) # char_of (val div 256) # char_of val # dst))
         | _ \<Rightarrow> Inl CorruptInputError))"
| "decodeQuanta _ = Inl CorruptInputError"

definition DecodeString :: "string \<Rightarrow> error + string" where
  "DecodeString s = decodeQuanta (filter (\<lambda>c. c \<noteq> CHR 0x0D \<and> c \<noteq> CHR 0x0A) s)"

subsection \<open>Helpers of the package that are not in \<^verbatim>\<open>service.go\<close>\<close>

text \<open>
  Modelled from the spec: \<^verbatim>\<open>reconcileInFlightTask\<close> (the task guard, section 4.1) is
  called by \<^verbatim>\<open>service.go\<close> but defined elsewhere. No stored reference: not in flight.
  Stored and reported complete, with success or with an error, or no longer known to
  the platform: the reference is cleared, the outcome recorded, and the pass proceeds.
  Stored and still pending: in flight, no error, nothing changed.
\<close>

definition reconcileInFlightTask :: "platform \<Rightarrow> VMContext \<Rightarrow> (bool \<times> error option) \<times> VMContext" where
  "reconcileInFlightTask P ctx =
     (let taskRef = Status_TaskRef (ICSVM ctx) in
      if taskRef = [] then ((False, None), ctx)
      else
        (let ctx1 = issue (CallGetTask taskRef) ctx in
         case GetTask_answer P taskRef of
           TaskPending \<Rightarrow> ((True, None), ctx1)
         | TaskSucceeded \<Rightarrow> ((False, None), ctx1\<lparr>ICSVM := (ICSVM ctx1)\<lparr>Status_TaskRef := []\<rparr>\<rparr>)
         | TaskGone \<Rightarrow> ((False, None), ctx1\<lparr>ICSVM := (ICSVM ctx1)\<lparr>Status_TaskRef := []\<rparr>\<rparr>)
         | TaskFailed msg \<Rightarrow>
             ((False, None),
              ctx1\<lparr>ICSVM := (ICSVM ctx1)\<lparr>Status_TaskRef := [], Status_FailureMessage := Some msg\<rparr>\<rparr>)))"

text \<open>
  Modelled from the spec: \<^verbatim>\<open>reconcileICSVMOnTaskCompletion\<close> (the completion notifier,
  section 4.4) registers interest in the stored task; with no task it does nothing.
\<close>

definition reconcileICSVMOnTaskCompletion :: "VMContext \<Rightarrow> VMContext" where
  "reconcileICSVMOnTaskCompletion ctx =
     (if Status_TaskRef (ICSVM ctx) = [] then ctx
      else issue (ArmTaskCompletion (Status_TaskRef (ICSVM ctx))) ctx)"

text \<open>
  Modelled from the spec: \<^verbatim>\<open>reconcileICSVMWhenNetworkIsReady\<close> arms the second waiter of
  section 4.3, which triggers a reconcile once network addresses are observed.
\<close>

definition reconcileICSVMWhenNetworkIsReady :: "virtualMachineContext \<Rightarrow> sdk_Task \<Rightarrow> virtualMachineContext" where
  "reconcileICSVMWhenNetworkIsReady ctx task = issue_vm (ArmNetworkIsReady (TaskId task)) ctx"

text \<open>
  Modelled from the spec: \<^verbatim>\<open>findVM\<close> (the remote state probe, section 4.2) answers with
  the reference of the remote VM, with not-found, or with a transient error.
\<close>

definition findVM :: "platform \<Rightarrow> VMContext \<Rightarrow> (error + string) \<times> VMContext" where
  "findVM P ctx = (findVM_answer P, issue CallFindVM ctx)"

text \<open>Modelled from the spec: \<^verbatim>\<open>isNotFound\<close> tells not-found from every other error.\<close>

fun isNotFound :: "error \<Rightarrow> bool" where
  "isNotFound (ErrNotFound key) = True"
| "isNotFound _ = False"

text \<open>
  Modelled from the spec: \<^verbatim>\<open>icenter.CreateVM\<close> is the create operation of section 4.3; it
  stores no task reference synchronously.
\<close>

definition CreateVM :: "platform \<Rightarrow> VMContext \<Rightarrow> string \<Rightarrow> error option \<times> VMContext" where
  "CreateVM P ctx payload = (CreateVM_answer P payload, issue (CallCreateVM payload) ctx)"

text \<open>
  Modelled from the spec: \<^verbatim>\<open>util.UpdateNetworkInfo\<close> adopts the reported addresses into
  the status of the resource.
\<close>

definition UpdateNetworkInfo :: "VMContext \<Rightarrow> NetworkStatus list \<Rightarrow> VMContext" where
  "UpdateNetworkInfo ctx netStatus =
     ctx\<lparr>ICSVM := (ICSVM ctx)\<lparr>Status_Addresses :=
       Some (concat (map (\<lambda>s. case IPAddrs s of None \<Rightarrow> [] | Some as \<Rightarrow> as) netStatus))\<rparr>\<rparr>"

text \<open>
  Modelled from the spec: the constant \<^verbatim>\<open>infrav1.PoweringOnFailedReason\<close> is declared in
  the API package; the spec gives its name only.
\<close>

definition PoweringOnFailedReason :: string where
  "PoweringOnFailedReason = ''PoweringOnFailed''"

subsection \<open>The calls of \<^verbatim>\<open>service.go\<close> to the SDK and to the repository\<close>

definition GetHost :: "platform \<Rightarrow> virtualMachineContext \<Rightarrow> string \<Rightarrow> (error + sdk_Host) \<times> virtualMachineContext" where
  "GetHost P ctx hostID = (GetHost_answer P hostID, issue_vm (CallGetHost hostID) ctx)"

definition PowerOnVM :: "platform \<Rightarrow> virtualMachineContext \<Rightarrow> string \<Rightarrow> (error + sdk_Task) \<times> virtualMachineContext" where
  "PowerOnVM P ctx r = (PowerOnVM_answer P r, issue_vm (CallPowerOnVM r) ctx)"

definition PowerOffVM :: "platform \<Rightarrow> virtualMachineContext \<Rightarrow> string \<Rightarrow> (error + sdk_Task) \<times> virtualMachineContext" where
  "PowerOffVM P ctx r = (PowerOffVM_answer P r, issue_vm (CallPowerOffVM r) ctx)"

definition DeleteVMWithCheckParams ::
  "platform \<Rightarrow> virtualMachineContext \<Rightarrow> string \<Rightarrow> bool \<Rightarrow> bool \<Rightarrow> string \<Rightarrow> (error + sdk_Task) \<times> virtualMachineContext"
where
  "DeleteVMWithCheckParams P ctx r force cascade password =
     (DeleteVMWithCheckParams_answer P r, issue_vm (CallDeleteVMWithCheckParams r force cascade password) ctx)"

definition WaitForResult :: "platform \<Rightarrow> virtualMachineContext \<Rightarrow> sdk_Task \<Rightarrow> sdk_TaskInfo option \<times> virtualMachineContext" where
  "WaitForResult P ctx task = (WaitForResult_answer P task, issue_vm (CallWaitForResult (TaskId task)) ctx)"

definition GetNetworkStatus :: "platform \<Rightarrow> virtualMachineContext \<Rightarrow> (error + NetworkStatus list) \<times> virtualMachineContext" where
  "GetNetworkStatus P ctx = (GetNetworkStatus_answer P (Ref ctx), issue_vm (CallGetNetworkStatus (Ref ctx)) ctx)"

definition Patch :: "platform \<Rightarrow> virtualMachineContext \<Rightarrow> error option \<times> virtualMachineContext" where
  "Patch P ctx = (Patch_answer P, issue_vm CallPatch ctx)"

definition SecretGet :: "platform \<Rightarrow> VMContext \<Rightarrow> ObjectReference \<Rightarrow> (error + (string \<rightharpoonup> string)) \<times> VMContext" where
  "SecretGet P ctx secretKey =
     (SecretGet_answer P (Ref_Namespace secretKey) (Ref_Name secretKey),
      issue (CallSecretGet (Ref_Namespace secretKey) (Ref_Name secretKey)) ctx)"

definition set_TaskRef :: "string \<Rightarrow> virtualMachineContext \<Rightarrow> virtualMachineContext" where
  "set_TaskRef t ctx = ctx\<lparr>Ctx := (Ctx ctx)\<lparr>ICSVM := (ICSVM (Ctx ctx))\<lparr>Status_TaskRef := t\<rparr>\<rparr>\<rparr>"

subsection \<open>\<^verbatim>\<open>service.go\<close>\<close>

definition getBootstrapData :: "platform \<Rightarrow> VMContext \<Rightarrow> (error + string) \<times> VMContext" where
  "getBootstrapData P ctx =
     (case Spec_BootstrapRef (ICSVM ctx) of
        None \<Rightarrow>
          (Inl (New ''error retrieving bootstrap data: linked icsvm's bootstrapRef is nil''), ctx)
      | Some secretKey \<Rightarrow>
          (case SecretGet P ctx secretKey of
             (Inl err, ctx1) \<Rightarrow>
               (Inl (Wrapf err ''failed to retrieve bootstrap data secret for %s'' [String ctx]), ctx1)
           | (Inr secretData, ctx1) \<Rightarrow>
               (case secretData ''value'' of
                  None \<Rightarrow> (Inl (New ''error retrieving bootstrap data: secret value key is missing''), ctx1)
                | Some val \<Rightarrow> (Inr (EncodeToString val), ctx1))))"

definition getPowerState ::
  "platform \<Rightarrow> virtualMachineContext \<Rightarrow> (error + VirtualMachinePowerState) \<times> virtualMachineContext"
where
  "getPowerState P ctx =
     (case GetVM P ctx (Ref ctx) of
        (Inl err, ctx1) \<Rightarrow> (Inl err, ctx1)
      | (Inr vmObj, ctx1) \<Rightarrow>
          (if Status vmObj = ''STARTED'' then (Inr VirtualMachinePowerStatePoweredOn, ctx1)
           else if Status vmObj = ''STOPPED'' then (Inr VirtualMachinePowerStatePoweredOff, ctx1)
           else if Status vmObj = ''PAUSED'' then (Inr VirtualMachinePowerStateSuspended, ctx1)
           else if Status vmObj = ''RESTARTING'' then (Inr VirtualMachinePowerStateSuspended, ctx1)
           else if Status vmObj = ''PENDING'' then (Inr VirtualMachinePowerStateSuspended, ctx1)
           else (Inl (Errorf ''unexpected power state %q for vm %s'' [Status vmObj, String (Ctx ctx)]), ctx1)))"

definition getNetworkStatus ::
  "platform \<Rightarrow> virtualMachineContext \<Rightarrow> (error + NetworkStatus list) \<times> virtualMachineContext"
where
  "getNetworkStatus P ctx =
     (case GetNetworkStatus P ctx of
        (Inl err, ctx1) \<Rightarrow> (Inl err, ctx1)
      | (Inr allNetStatus, ctx1) \<Rightarrow>
          (Inr (map (\<lambda>s. \<lparr>Connected = Connected s, IPAddrs = sanitizeIPAddrs P (IPAddrs s),
                          MACAddr = MACAddr s, NetworkName = NetworkName s\<rparr>) allNetStatus), ctx1))"

definition reconcileNetworkStatus :: "platform \<Rightarrow> virtualMachineContext \<Rightarrow> error option \<times> virtualMachineContext" where
  "reconcileNetworkStatus P ctx =
     (case getNetworkStatus P ctx of
        (Inl err, ctx1) \<Rightarrow> (Some err, ctx1)
      | (Inr netStatus, ctx1) \<Rightarrow>
          (let ctx2 = ctx1\<lparr>VMState := (VMState ctx1)\<lparr>Network := netStatus\<rparr>\<rparr> in
           if length netStatus \<ge> 1 then
             (if Status_Addresses (ICSVM (Ctx ctx2)) = None \<and> IPAddrs (netStatus ! 0) \<noteq> None then
                (let ctx3 = ctx2\<lparr>Ctx := UpdateNetworkInfo (Ctx ctx2) netStatus\<rparr> in
                 if IsControlPlaneMachine (ICSVM (Ctx ctx3)) then (None, snd (Patch P ctx3))
                 else (None, ctx3))
              else (None, ctx2))
           else (None, ctx2)))"

definition reconcileUUID :: "platform \<Rightarrow> virtualMachineContext \<Rightarrow> virtualMachineContext" where
  "reconcileUUID P ctx =
     (case GetVM P ctx (Ref ctx) of
        (Inl err, ctx1) \<Rightarrow> ctx1
      | (Inr vm, ctx1) \<Rightarrow> ctx1\<lparr>VMState := (VMState ctx1)\<lparr>UID := ID vm, BiosUUID := UUID vm\<rparr>\<rparr>)"

text \<open>
  Modelled from the spec: the string values of the power-state constants are declared
  in the API package; they only appear as the \<^verbatim>\<open>%q\<close> argument of an error message.
\<close>

fun VirtualMachinePowerState_string :: "VirtualMachinePowerState \<Rightarrow> string" where
  "VirtualMachinePowerState_string VirtualMachinePowerStatePoweredOn = ''poweredOn''"
| "VirtualMachinePowerState_string VirtualMachinePowerStatePoweredOff = ''poweredOff''"
| "VirtualMachinePowerState_string VirtualMachinePowerStateSuspended = ''suspended''"

definition reconcilePowerState ::
  "platform \<Rightarrow> virtualMachineContext \<Rightarrow> (bool \<times> error option) \<times> virtualMachineContext"
where
  "reconcilePowerState P ctx =
     (case getPowerState P ctx of
        (Inl err, ctx1) \<Rightarrow> ((False, Some err), ctx1)
      | (Inr powerState, ctx1) \<Rightarrow>
          (if powerState = VirtualMachinePowerStatePoweredOff then
             (case GetVM P ctx1 (Ref ctx1) of
                (Inl err, ctx2) \<Rightarrow> ((False, None), ctx2)
              | (Inr vm, ctx2) \<Rightarrow>
                  (case GetHost P ctx2 (HostID vm) of
                     (Inl err, ctx3) \<Rightarrow> ((False, None), ctx3)
                   | (Inr host, ctx3) \<Rightarrow>
                       (if MemoryInByte vm \<ge> FreeMemoryInByte host
                           \<or> MemoryInByte vm \<ge> LogicFreeMemoryInByte host
                        then ((False, Some (New PoweringOnFailedReason)), ctx3)
                        else
                          (case PowerOnVM P ctx3 (Ref ctx3) of
                             (Inl err, ctx4) \<Rightarrow>
                               ((False, Some (Wrapf err ''failed to trigger power on op for vm %s''
                                                [String (Ctx ctx)])), ctx4)
                           | (Inr task, ctx4) \<Rightarrow>
                               (let ctx5 = set_TaskRef (TaskId task) ctx4;
                                    ctx6 = reconcileICSVMWhenNetworkIsReady ctx5 task
                                in case WaitForResult P ctx6 task of
                                     (Some taskInfo, ctx7) \<Rightarrow>
                                       (if TaskInfo_State taskInfo = ''ERROR''
                                        then ((False, Some (New PoweringOnFailedReason)), ctx7)
                                        else ((False, None), ctx7))
                                   | (None, ctx7) \<Rightarrow> ((False, None), ctx7))))))
           else if powerState = VirtualMachinePowerStatePoweredOn then ((True, None), ctx1)
           else
             ((False, Some (Errorf ''unexpected power state %q for vm %s''
                              [VirtualMachinePowerState_string powerState, String (Ctx ctx)])), ctx1)))"

text \<open>
  \<^verbatim>\<open>ReconcileVM\<close> after its \<^verbatim>\<open>defer\<close> statement: the probe, then either the create path
  or the update path (identity, network, power).
\<close>

definition ReconcileVM_deferred ::
  "platform \<Rightarrow> VMContext \<Rightarrow> VirtualMachine \<Rightarrow> (VirtualMachine \<times> error option) \<times> VMContext"
where
  "ReconcileVM_deferred P ctx vm =
     (case findVM P ctx of
        (Inl err, ctx1) \<Rightarrow>
          (case getBootstrapData P ctx1 of
             (Inl err, ctx2) \<Rightarrow> ((vm, Some err), ctx2)
           | (Inr metadata, ctx2) \<Rightarrow>
               (case DecodeString metadata of
                  Inl err \<Rightarrow> ((vm, Some err), ctx2)
                | Inr metadataBytes \<Rightarrow>
                    (case CreateVM P ctx2 metadataBytes of (err, ctx3) \<Rightarrow> ((vm, err), ctx3))))
      | (Inr vmRef, ctx1) \<Rightarrow>
          (let vmCtx = \<lparr>Ctx = ctx1, Ref = vmRef, VMState = vm\<rparr>;
               vmCtx1 = reconcileUUID P vmCtx
           in case reconcileNetworkStatus P vmCtx1 of
                (Some err, vmCtx2) \<Rightarrow> ((VMState vmCtx2, Some err), Ctx vmCtx2)
              | (None, vmCtx2) \<Rightarrow>
                  (case reconcilePowerState P vmCtx2 of
                     ((ok, err), vmCtx3) \<Rightarrow>
                       (if err \<noteq> None \<or> \<not> ok then ((VMState vmCtx3, err), Ctx vmCtx3)
                        else (((VMState vmCtx3)\<lparr>State := VirtualMachineStateReady\<rparr>, None),
                              Ctx vmCtx3)))))"

definition ReconcileVM :: "platform \<Rightarrow> VMContext \<Rightarrow> (VirtualMachine \<times> error option) \<times> VMContext" where
  "ReconcileVM P ctx =
     (let vm = \<lparr>Name = ICSVM_Name (ICSVM ctx), BiosUUID = [], UID = [],
                State = VirtualMachineStatePending, Network = []\<rparr>
      in case reconcileInFlightTask P ctx of
           ((inFlight, err), ctx1) \<Rightarrow>
             (if err \<noteq> None \<or> inFlight then ((vm, err), ctx1)
              else (case ReconcileVM_deferred P ctx1 vm of
                      (res, ctx2) \<Rightarrow> (res, reconcileICSVMOnTaskCompletion ctx2))))"

text \<open>\<^verbatim>\<open>DestroyVM\<close> after its \<^verbatim>\<open>defer\<close> statement.\<close>

definition DestroyVM_deferred ::
  "platform \<Rightarrow> VMContext \<Rightarrow> VirtualMachine \<Rightarrow> (VirtualMachine \<times> error option) \<times> VMContext"
where
  "DestroyVM_deferred P ctx vm =
     (case findVM P ctx of
        (Inl err, ctx1) \<Rightarrow>
          (if isNotFound err then ((vm\<lparr>State := VirtualMachineStateNotFound\<rparr>, None), ctx1)
           else ((vm, Some err), ctx1))
      | (Inr vmRef, ctx1) \<Rightarrow>
          (let vmCtx = \<lparr>Ctx = ctx1, Ref = vmRef, VMState = vm\<rparr>
           in case getPowerState P vmCtx of
                (Inl err, vmCtx1) \<Rightarrow> ((VMState vmCtx1, Some err), Ctx vmCtx1)
              | (Inr powerState, vmCtx1) \<Rightarrow>
                  (if powerState = VirtualMachinePowerStatePoweredOn then
                     (case PowerOffVM P vmCtx1 vmRef of
                        (Inl err, vmCtx2) \<Rightarrow> ((VMState vmCtx2, Some err), Ctx vmCtx2)
                      | (Inr task, vmCtx2) \<Rightarrow>
                          (let vmCtx3 = set_TaskRef (TaskId task) vmCtx2
                           in ((VMState vmCtx3, None), Ctx vmCtx3)))
                   else
                     (case DeleteVMWithCheckParams P vmCtx1 vmRef True True
                             (Session_Password (Ctx vmCtx1)) of
                        (Inl err, vmCtx2) \<Rightarrow> ((VMState vmCtx2, Some err), Ctx vmCtx2)
                      | (Inr task, vmCtx2) \<Rightarrow>
                          (let vmCtx3 = set_TaskRef (TaskId task) vmCtx2
                           in ((VMState vmCtx3, None), Ctx vmCtx3))))))"

definition DestroyVM :: "platform \<Rightarrow> VMContext \<Rightarrow> (VirtualMachine \<times> error option) \<times> VMContext" where
  "DestroyVM P ctx =
     (let vm = \<lparr>Name = ICSVM_Name (ICSVM ctx), BiosUUID = [], UID = [],
                State = VirtualMachineStatePending, Network = []\<rparr>
      in case reconcileInFlightTask P ctx of
           ((inFlight, err), ctx1) \<Rightarrow>
             (if err \<noteq> None \<or> inFlight then ((vm, err), ctx1)
              else (case DestroyVM_deferred P ctx1 vm of
                      (res, ctx2) \<Rightarrow> (res, reconcileICSVMOnTaskCompletion ctx2))))"

subsection \<open>Kinds of remote calls\<close>

fun is_CreateVM :: "call \<Rightarrow> bool" where
  "is_CreateVM (CallCreateVM payload) = True"
| "is_CreateVM _ = False"

fun is_PowerOnVM :: "call \<Rightarrow> bool" where
  "is_PowerOnVM (CallPowerOnVM r) = True"
| "is_PowerOnVM _ = False"

fun is_PowerOffVM :: "call \<Rightarrow> bool" where
  "is_PowerOffVM (CallPowerOffVM r) = True"
| "is_PowerOffVM _ = False"

fun is_DeleteVM :: "call \<Rightarrow> bool" where
  "is_DeleteVM (CallDeleteVMWithCheckParams r force cascade password) = True"
| "is_DeleteVM _ = False"

text \<open>A probe reads the remote VM, its host or its network state.\<close>

fun is_probe :: "call \<Rightarrow> bool" where
  "is_probe CallFindVM = True"
| "is_probe (CallGetVM r) = True"
| "is_probe (CallGetHost h) = True"
| "is_probe (CallGetNetworkStatus r) = True"
| "is_probe _ = False"

text \<open>No stored task reference that the platform reports as pending.\<close>

definition taskPending :: "platform \<Rightarrow> VMContext \<Rightarrow> bool" where
  "taskPending P ctx \<longleftrightarrow>
     Status_TaskRef (ICSVM ctx) \<noteq> [] \<and> GetTask_answer P (Status_TaskRef (ICSVM ctx)) = TaskPending"

subsection \<open>Reading the outcome of a pass\<close>

type_synonym outcome = "(VirtualMachine \<times> error option) \<times> VMContext"

definition phase :: "outcome \<Rightarrow> VirtualMachineState" where
  "phase r = State (fst (fst r))"

definition returned_error :: "outcome \<Rightarrow> error option" where
  "returned_error r = snd (fst r)"

definition issued :: "outcome \<Rightarrow> call list" where
  "issued r = calls (snd r)"

definition resource :: "outcome \<Rightarrow> ICSVM" where
  "resource r = ICSVM (snd r)"

subsection \<open>Concrete scenarios\<close>

definition example_ICSVM :: "ObjectReference option \<Rightarrow> string \<Rightarrow> ICSVM" where
  "example_ICSVM bootstrapRef taskRef =
     \<lparr>GroupVersionKind = ''infrastructure.cluster.x-k8s.io/v1beta1, Kind=ICSVM'',
      ICSVM_Namespace = ''default'', ICSVM_Name = ''vm-0'',
      Spec_BootstrapRef = bootstrapRef, Status_TaskRef = taskRef,
      Status_Addresses = None, Status_FailureMessage = None, IsControlPlaneMachine = False\<rparr>"

definition example_ctx :: "ObjectReference option \<Rightarrow> string \<Rightarrow> VMContext" where
  "example_ctx bootstrapRef taskRef =
     \<lparr>ICSVM = example_ICSVM bootstrapRef taskRef, Session_Password = ''pw'', calls = []\<rparr>"

definition example_bootstrapRef :: ObjectReference where
  "example_bootstrapRef = \<lparr>Ref_Namespace = ''default'', Ref_Name = ''vm-0-bootstrap''\<rparr>"

definition example_vm :: "string \<Rightarrow> sdk_VirtualMachine" where
  "example_vm status =
     \<lparr>ID = ''vm-1'', UUID = ''4211-aa'', Status = status, HostID = ''host-1'', MemoryInByte = 4096\<rparr>"

definition example_host :: "int \<Rightarrow> int \<Rightarrow> sdk_Host" where
  "example_host free logicFree = \<lparr>FreeMemoryInByte = free, LogicFreeMemoryInByte = logicFree\<rparr>"

text \<open>
  A platform that answers the probe with \<open>probe\<close>, reports the VM in state \<open>status\<close> on
  every \<^verbatim>\<open>GetVM\<close>, answers \<^verbatim>\<open>GetHost\<close> with \<open>host\<close>, every power operation with
  \<open>powerAnswer\<close>, and holds a bootstrap secret with the entries \<open>secretData\<close>.
\<close>

definition example_platform ::
  "(error + string) \<Rightarrow> string \<Rightarrow> (error + sdk_Host) \<Rightarrow> (error + sdk_Task) \<Rightarrow> (string \<rightharpoonup> string) \<Rightarrow> platform"
where
  "example_platform probe status host powerAnswer secretData =
     \<lparr>GetTask_answer = (\<lambda>t. TaskPending),
      findVM_answer = probe,
      GetVM_answer = (\<lambda>k r. Inr (example_vm status)),
      GetHost_answer = (\<lambda>h. host),
      GetNetworkStatus_answer = (\<lambda>r. Inr []),
      sanitizeIPAddrs = (\<lambda>ips. ips),
      SecretGet_answer = (\<lambda>ns n. Inr secretData),
      CreateVM_answer = (\<lambda>payload. None),
      PowerOnVM_answer = (\<lambda>r. powerAnswer),
      PowerOffVM_answer = (\<lambda>r. powerAnswer),
      DeleteVMWithCheckParams_answer = (\<lambda>r. Inr \<lparr>TaskId = ''task-delete''\<rparr>),
      WaitForResult_answer = (\<lambda>t. None),
      Patch_answer = None\<rparr>"

definition example_secret :: "string \<rightharpoonup> string" where
  "example_secret = [''value'' \<mapsto> ''#cloud-config'']"

section \<open>The control-plane discovery poller\<close>


































section \<open>Properties\<close>

subsection \<open>Base64: decoding inverts encoding\<close>

lemma length_encodeStd: "length encodeStd = 64"
  by (simp add: encodeStd_def)

lemma distinct_encodeStd: "distinct encodeStd"
  by (simp add: encodeStd_def)

lemma index_of_nth: "distinct xs \<Longrightarrow> i < length xs \<Longrightarrow> index_of (xs ! i) xs = Some i"
proof (induction xs arbitrary: i)
  case Nil
  then show ?case by simp
next
  case (Cons x xs)
  show ?case
  proof (cases i)
    case 0
    then show ?thesis by simp
  next
    case (Suc j)
    with Cons.prems have "j < length xs" "distinct xs" "xs ! j \<noteq> x"
      by auto
    with Cons.IH[of j] Suc show ?thesis by simp
  qed
qed

lemma decodeMap_encodeStd [simp]: "decodeMap (encodeStd ! (n mod 64)) = Some (n mod 64)"
  unfolding decodeMap_def
  by (rule index_of_nth) (simp_all add: distinct_encodeStd length_encodeStd)

lemma special_notin_encodeStd:
  "StdPadding \<notin> set encodeStd" "CHR 0x0D \<notin> set encodeStd" "CHR 0x0A \<notin> set encodeStd"
  by (simp_all add: encodeStd_def StdPadding_def)

lemma encodeStd_nth_neq [simp]:
  "encodeStd ! (n mod 64) \<noteq> StdPadding"
  "encodeStd ! (n mod 64) \<noteq> CHR 0x0D"
  "encodeStd ! (n mod 64) \<noteq> CHR 0x0A"
proof -
  have "encodeStd ! (n mod 64) \<in> set encodeStd"
    by (simp add: length_encodeStd)
  with special_notin_encodeStd
  show "encodeStd ! (n mod 64) \<noteq> StdPadding" "encodeStd ! (n mod 64) \<noteq> CHR 0x0D"
    "encodeStd ! (n mod 64) \<noteq> CHR 0x0A"
    by auto
qed

lemma StdPadding_neq [simp]: "StdPadding \<noteq> CHR 0x0D" "StdPadding \<noteq> CHR 0x0A"
  by (simp_all add: StdPadding_def)

lemma of_char_lt_256: "(of_char c :: nat) < 256"
proof -
  have "(of_char c :: nat) mod 256 = of_char c" by (rule of_char_mod_256)
  then show ?thesis by (metis mod_less_divisor zero_less_numeral)
qed

lemma digits64:
  fixes v :: nat
  shows "(v div 262144 mod 64) * 262144 + (v div 4096 mod 64) * 4096 + (v div 64 mod 64) * 64 + v mod 64
         = v mod 16777216"
proof -
  have a: "v mod (64 * 64) = 64 * (v div 64 mod 64) + v mod 64"
    by (rule mod_mult2_eq)
  have b: "v mod (4096 * 64) = 4096 * (v div 4096 mod 64) + v mod 4096"
    by (rule mod_mult2_eq)
  have c: "v mod (262144 * 64) = 262144 * (v div 262144 mod 64) + v mod 262144"
    by (rule mod_mult2_eq)
  from a b c show ?thesis by simp
qed

lemma div_mod_digit:
  fixes r q m :: nat
  assumes "r < m"
  shows "(r + q * m) div m = q" "(r + q * m) mod m = r"
  using assms by simp_all

lemma bytes3:
  fixes x y z :: nat
  assumes "x < 256" "y < 256" "z < 256"
  defines "v \<equiv> x * 65536 + y * 256 + z"
  shows "v < 16777216" "v div 65536 = x" "v div 256 mod 256 = y" "v mod 256 = z"
proof -
  show "v < 16777216" using assms by simp
  define r where "r = y * 256 + z"
  have r: "r < 65536" using assms by (simp add: r_def)
  have "v = r + x * 65536" by (simp add: v_def r_def)
  with div_mod_digit(1)[OF r, of x] show "v div 65536 = x" by (simp only:)
  define q where "q = x * 256 + y"
  have v: "v = z + q * 256" by (simp add: v_def q_def)
  have "(z + q * 256) div 256 = q" "(z + q * 256) mod 256 = z"
    using div_mod_digit[OF assms(3), of q] by (simp_all only:)
  with v have d: "v div 256 = q" "v mod 256 = z" by (simp_all only:)
  show "v mod 256 = z" by (rule d)
  have "q = y + x * 256" by (simp add: q_def)
  with div_mod_digit(2)[OF assms(2), of x] have "q mod 256 = y" by (simp only:)
  with d(1) show "v div 256 mod 256 = y" by (simp only:)
qed

text \<open>decoding the four characters of a whole group gives the three bytes back\<close>
lemma quantum3:
  fixes a b c :: char
  defines "v \<equiv> (of_char a :: nat) * 65536 + of_char b * 256 + of_char c"
  defines "w \<equiv> (v div 262144 mod 64) * 262144 + (v div 4096 mod 64) * 4096 + (v div 64 mod 64) * 64 + v mod 64"
  shows "char_of (w div 65536) = a" "char_of (w div 256) = b" "char_of w = c"
proof -
  note b3 = bytes3[OF of_char_lt_256[of a] of_char_lt_256[of b] of_char_lt_256[of c], folded v_def]
  have "w = v mod 16777216" unfolding w_def by (rule digits64)
  with b3(1) have wv: "w = v" by simp
  show "char_of (w div 65536) = a" using b3(2) wv by simp
  have "char_of (w div 256) = char_of (w div 256 mod 256)" by (simp only: char_of_mod_256)
  also have "\<dots> = b" using b3(3) wv by simp
  finally show "char_of (w div 256) = b" .
  have "char_of w = char_of (w mod 256)" by (simp only: char_of_mod_256)
  also have "\<dots> = c" using b3(4) wv by simp
  finally show "char_of w = c" .
qed


lemma quantum2:
  fixes a b :: char
  defines "v \<equiv> (of_char a :: nat) * 65536 + of_char b * 256"
  defines "w \<equiv> (v div 262144 mod 64) * 262144 + (v div 4096 mod 64) * 4096 + (v div 64 mod 64) * 64"
  shows "char_of (w div 65536) = a" "char_of (w div 256) = b"
proof -
  have z: "(0::nat) < 256" by simp
  have v: "v = (of_char a :: nat) * 65536 + of_char b * 256 + 0" by (simp add: v_def)
  note b3 = bytes3[OF of_char_lt_256[of a] of_char_lt_256[of b] z, folded v]
  have "v = 0 + ((of_char a :: nat) * 1024 + of_char b * 4) * 64" by (simp add: v_def)
  then have "v mod 64 = 0" by (simp only: mod_mult_self3) simp
  with digits64[of v] have "w = v mod 16777216" by (simp add: w_def)
  with b3(1) have wv: "w = v" by simp
  show "char_of (w div 65536) = a" using b3(2) wv by simp
  have "char_of (w div 256) = char_of (w div 256 mod 256)" by (simp only: char_of_mod_256)
  also have "\<dots> = b" using b3(3) wv by simp
  finally show "char_of (w div 256) = b" .
qed

lemma quantum1:
  fixes a :: char
  defines "v \<equiv> (of_char a :: nat) * 65536"
  defines "w \<equiv> (v div 262144 mod 64) * 262144 + (v div 4096 mod 64) * 4096"
  shows "char_of (w div 65536) = a"
proof -
  have z: "(0::nat) < 256" by simp
  have v: "v = (of_char a :: nat) * 65536 + 0 * 256 + 0" by (simp add: v_def)
  note b3 = bytes3[OF of_char_lt_256[of a] z z, folded v]
  have "v = 0 + ((of_char a :: nat) * 1024) * 64" by (simp add: v_def)
  then have m: "v mod 64 = 0" by (simp only: mod_mult_self3) simp
  have "v div 64 = (of_char a :: nat) * 1024" by (simp add: v_def)
  also have "\<dots> = 0 + (of_char a * 16) * 64" by simp
  finally have "v div 64 mod 64 = 0" by (simp only: mod_mult_self3) simp
  with m digits64[of v] have "w = v mod 16777216" by (simp add: w_def)
  with b3(1) have wv: "w = v" by simp
  show "char_of (w div 65536) = a" using b3(2) wv by simp
qed

lemma EncodeToString_no_newline:
  "filter (\<lambda>c. c \<noteq> CHR 0x0D \<and> c \<noteq> CHR 0x0A) (EncodeToString src) = EncodeToString src"
  by (induction src rule: EncodeToString.induct) (simp_all add: Let_def)

lemmas quantum_ss = EncodeToString.simps decodeQuanta.simps Let_def list.simps prod.case
  option.case sum.case if_True if_False simp_thms decodeMap_encodeStd encodeStd_nth_neq

lemma decodeQuanta_EncodeToString: "decodeQuanta (EncodeToString src) = Inr src"
proof (induction src rule: EncodeToString.induct)
  case (1 a b c src)
  then show ?case by (simp only: quantum_ss quantum3)
next
  case (2 a b)
  then show ?case by (simp only: quantum_ss quantum2)
next
  case (3 a)
  then show ?case by (simp only: quantum_ss quantum1)
next
  case 4
  then show ?case by simp
qed

lemma DecodeString_EncodeToString: "DecodeString (EncodeToString src) = Inr src"
  by (simp add: DecodeString_def EncodeToString_no_newline decodeQuanta_EncodeToString)

subsection \<open>Projections\<close>

lemma issue_simps [simp]:
  "calls (issue c x) = calls x @ [c]"
  "ICSVM (issue c x) = ICSVM x"
  "Session_Password (issue c x) = Session_Password x"
  "String (issue c x) = String x"
  by (simp_all add: issue_def String_def)

lemma issue_vm_simps [simp]:
  "Ctx (issue_vm c x) = issue c (Ctx x)"
  "Ref (issue_vm c x) = Ref x"
  "VMState (issue_vm c x) = VMState x"
  by (simp_all add: issue_vm_def)

lemma set_TaskRef_simps [simp]:
  "calls (Ctx (set_TaskRef t x)) = calls (Ctx x)"
  "Status_TaskRef (ICSVM (Ctx (set_TaskRef t x))) = t"
  "Ref (set_TaskRef t x) = Ref x"
  "VMState (set_TaskRef t x) = VMState x"
  by (simp_all add: set_TaskRef_def)

subsection \<open>Task guard and completion notifier\<close>

lemma guard_pending:
  "taskPending P ctx \<Longrightarrow>
   reconcileInFlightTask P ctx = ((True, None), issue (CallGetTask (Status_TaskRef (ICSVM ctx))) ctx)"
  by (simp add: taskPending_def reconcileInFlightTask_def)

lemma guard_pass: "\<not> taskPending P ctx \<Longrightarrow> fst (reconcileInFlightTask P ctx) = (False, None)"
  by (auto simp: taskPending_def reconcileInFlightTask_def Let_def split: task_report.splits)

lemma guard_calls:
  "calls (snd (reconcileInFlightTask P ctx)) = calls ctx \<or>
   calls (snd (reconcileInFlightTask P ctx)) = calls ctx @ [CallGetTask (Status_TaskRef (ICSVM ctx))]"
  by (simp add: reconcileInFlightTask_def Let_def split: task_report.splits)

lemma guard_filter:
  "\<forall>t. \<not> p (CallGetTask t) \<Longrightarrow>
   filter p (calls (snd (reconcileInFlightTask P ctx))) = filter p (calls ctx)"
  using guard_calls[of P ctx] by auto

lemma guard_frame [simp]:
  "Spec_BootstrapRef (ICSVM (snd (reconcileInFlightTask P ctx))) = Spec_BootstrapRef (ICSVM ctx)"
  "Session_Password (snd (reconcileInFlightTask P ctx)) = Session_Password ctx"
  "String (snd (reconcileInFlightTask P ctx)) = String ctx"
  by (simp_all add: reconcileInFlightTask_def Let_def String_def split: task_report.splits)

lemma notifier_filter:
  "\<forall>t. \<not> p (ArmTaskCompletion t) \<Longrightarrow>
   filter p (calls (reconcileICSVMOnTaskCompletion c)) = filter p (calls c)"
  by (simp add: reconcileICSVMOnTaskCompletion_def)

lemma notifier_ICSVM [simp]: "ICSVM (reconcileICSVMOnTaskCompletion c) = ICSVM c"
  by (simp add: reconcileICSVMOnTaskCompletion_def)

lemma ReconcileVM_pending:
  "taskPending P ctx \<Longrightarrow>
   ReconcileVM P ctx =
     ((\<lparr>Name = ICSVM_Name (ICSVM ctx), BiosUUID = [], UID = [],
        State = VirtualMachineStatePending, Network = []\<rparr>, None),
      issue (CallGetTask (Status_TaskRef (ICSVM ctx))) ctx)"
  by (simp add: ReconcileVM_def guard_pending)

lemma DestroyVM_pending:
  "taskPending P ctx \<Longrightarrow>
   DestroyVM P ctx =
     ((\<lparr>Name = ICSVM_Name (ICSVM ctx), BiosUUID = [], UID = [],
        State = VirtualMachineStatePending, Network = []\<rparr>, None),
      issue (CallGetTask (Status_TaskRef (ICSVM ctx))) ctx)"
  by (simp add: DestroyVM_def guard_pending)

lemma ReconcileVM_pass:
  assumes "\<not> taskPending P ctx"
  shows "ReconcileVM P ctx =
     (fst (ReconcileVM_deferred P (snd (reconcileInFlightTask P ctx))
             \<lparr>Name = ICSVM_Name (ICSVM ctx), BiosUUID = [], UID = [],
              State = VirtualMachineStatePending, Network = []\<rparr>),
      reconcileICSVMOnTaskCompletion
        (snd (ReconcileVM_deferred P (snd (reconcileInFlightTask P ctx))
             \<lparr>Name = ICSVM_Name (ICSVM ctx), BiosUUID = [], UID = [],
              State = VirtualMachineStatePending, Network = []\<rparr>)))"
  using guard_pass[OF assms] by (simp add: ReconcileVM_def case_prod_beta Let_def)

lemma DestroyVM_pass:
  assumes "\<not> taskPending P ctx"
  shows "DestroyVM P ctx =
     (fst (DestroyVM_deferred P (snd (reconcileInFlightTask P ctx))
             \<lparr>Name = ICSVM_Name (ICSVM ctx), BiosUUID = [], UID = [],
              State = VirtualMachineStatePending, Network = []\<rparr>),
      reconcileICSVMOnTaskCompletion
        (snd (DestroyVM_deferred P (snd (reconcileInFlightTask P ctx))
             \<lparr>Name = ICSVM_Name (ICSVM ctx), BiosUUID = [], UID = [],
              State = VirtualMachineStatePending, Network = []\<rparr>)))"
  using guard_pass[OF assms] by (simp add: DestroyVM_def case_prod_beta Let_def)

subsection \<open>The create path\<close>

lemma create_no_bootstrapRef:
  assumes "findVM_answer P = Inl e" and "Spec_BootstrapRef (ICSVM c) = None"
  shows "ReconcileVM_deferred P c vm =
     ((vm, Some (New ''error retrieving bootstrap data: linked icsvm's bootstrapRef is nil'')),
      issue CallFindVM c)"
  using assms by (simp add: ReconcileVM_deferred_def findVM_def getBootstrapData_def)

lemma create_no_value_key:
  assumes "findVM_answer P = Inl e" and "Spec_BootstrapRef (ICSVM c) = Some k"
    and "SecretGet_answer P (Ref_Namespace k) (Ref_Name k) = Inr secretData"
    and "secretData ''value'' = None"
  shows "ReconcileVM_deferred P c vm =
     ((vm, Some (New ''error retrieving bootstrap data: secret value key is missing'')),
      issue (CallSecretGet (Ref_Namespace k) (Ref_Name k)) (issue CallFindVM c))"
  using assms by (simp add: ReconcileVM_deferred_def findVM_def getBootstrapData_def SecretGet_def)

lemma create_with_value:
  assumes "findVM_answer P = Inl e" and "Spec_BootstrapRef (ICSVM c) = Some k"
    and "SecretGet_answer P (Ref_Namespace k) (Ref_Name k) = Inr secretData"
    and "secretData ''value'' = Some v"
  shows "ReconcileVM_deferred P c vm =
     ((vm, CreateVM_answer P v),
      issue (CallCreateVM v) (issue (CallSecretGet (Ref_Namespace k) (Ref_Name k)) (issue CallFindVM c)))"
  using assms
  by (simp add: ReconcileVM_deferred_def findVM_def getBootstrapData_def SecretGet_def
      CreateVM_def DecodeString_EncodeToString)


subsection \<open>The update path: identity and network sync\<close>

lemma reconcileUUID_simps [simp]:
  "Ctx (reconcileUUID P c) = issue (CallGetVM (Ref c)) (Ctx c)"
  "Ref (reconcileUUID P c) = Ref c"
  "State (VMState (reconcileUUID P c)) = State (VMState c)"
  by (simp_all add: reconcileUUID_def GetVM_def split: sum.splits)

lemma reconcileNetworkStatus_ok:
  "GetNetworkStatus_answer P (Ref c) = Inr ns \<Longrightarrow> fst (reconcileNetworkStatus P c) = None"
  by (simp add: reconcileNetworkStatus_def getNetworkStatus_def GetNetworkStatus_def Let_def)

lemma reconcileNetworkStatus_frame [simp]:
  "Ref (snd (reconcileNetworkStatus P c)) = Ref c"
  "State (VMState (snd (reconcileNetworkStatus P c))) = State (VMState c)"
  "String (Ctx (snd (reconcileNetworkStatus P c))) = String (Ctx c)"
  "Status_TaskRef (ICSVM (Ctx (snd (reconcileNetworkStatus P c)))) = Status_TaskRef (ICSVM (Ctx c))"
  by (simp_all add: reconcileNetworkStatus_def getNetworkStatus_def GetNetworkStatus_def
      UpdateNetworkInfo_def Patch_def Let_def String_def split: sum.splits)

lemma reconcileNetworkStatus_calls:
  "calls (Ctx (snd (reconcileNetworkStatus P c))) = calls (Ctx c) @ [CallGetNetworkStatus (Ref c)] \<or>
   calls (Ctx (snd (reconcileNetworkStatus P c))) = calls (Ctx c) @ [CallGetNetworkStatus (Ref c), CallPatch]"
  by (simp add: reconcileNetworkStatus_def getNetworkStatus_def GetNetworkStatus_def
      UpdateNetworkInfo_def Patch_def Let_def split: sum.splits)

lemma reconcileNetworkStatus_filter:
  "\<forall>r. \<not> p (CallGetNetworkStatus r) \<Longrightarrow> \<not> p CallPatch \<Longrightarrow>
   filter p (calls (Ctx (snd (reconcileNetworkStatus P c)))) = filter p (calls (Ctx c))"
  using reconcileNetworkStatus_calls[of P c] by auto

subsection \<open>The update path: power sync\<close>

lemma getPowerState_snd [simp]: "snd (getPowerState P c) = issue_vm (CallGetVM (Ref c)) c"
  by (simp add: getPowerState_def GetVM_def split: sum.splits)

lemma getPowerState_fst:
  "fst (getPowerState P c) =
     (case GetVM_answer P (length (filter is_GetVM (calls (Ctx c)))) (Ref c) of
        Inl err \<Rightarrow> Inl err
      | Inr vmObj \<Rightarrow>
          if Status vmObj = ''STARTED'' then Inr VirtualMachinePowerStatePoweredOn
          else if Status vmObj = ''STOPPED'' then Inr VirtualMachinePowerStatePoweredOff
          else if Status vmObj \<in> {''PAUSED'', ''RESTARTING'', ''PENDING''}
          then Inr VirtualMachinePowerStateSuspended
          else Inl (Errorf ''unexpected power state %q for vm %s'' [Status vmObj, String (Ctx c)]))"
  by (simp add: getPowerState_def GetVM_def split: sum.splits)

lemma getPowerState_eq:
  "getPowerState P c = (fst (getPowerState P c), issue_vm (CallGetVM (Ref c)) c)"
  by (simp add: prod_eq_iff)

lemma rps_suspended:
  assumes "GetVM_answer P (length (filter is_GetVM (calls (Ctx c)))) (Ref c) = Inr vmObj"
    and "Status vmObj \<in> {''PAUSED'', ''RESTARTING'', ''PENDING''}"
  shows "reconcilePowerState P c =
     ((False, Some (Errorf ''unexpected power state %q for vm %s''
                     [VirtualMachinePowerState_string VirtualMachinePowerStateSuspended, String (Ctx c)])),
      issue_vm (CallGetVM (Ref c)) c)"
proof -
  have "getPowerState P c = (Inr VirtualMachinePowerStateSuspended, issue_vm (CallGetVM (Ref c)) c)"
    using assms by (subst getPowerState_eq) (auto simp: getPowerState_fst)
  then show ?thesis by (simp add: reconcilePowerState_def)
qed

lemma rps_unrecognized:
  assumes "GetVM_answer P (length (filter is_GetVM (calls (Ctx c)))) (Ref c) = Inr vmObj"
    and "Status vmObj \<notin> {''STARTED'', ''STOPPED'', ''PAUSED'', ''RESTARTING'', ''PENDING''}"
  shows "reconcilePowerState P c =
     ((False, Some (Errorf ''unexpected power state %q for vm %s'' [Status vmObj, String (Ctx c)])),
      issue_vm (CallGetVM (Ref c)) c)"
proof -
  have "getPowerState P c =
      (Inl (Errorf ''unexpected power state %q for vm %s'' [Status vmObj, String (Ctx c)]),
       issue_vm (CallGetVM (Ref c)) c)"
    using assms by (subst getPowerState_eq) (auto simp: getPowerState_fst)
  then show ?thesis by (simp add: reconcilePowerState_def)
qed

lemma rps_started:
  assumes "GetVM_answer P (length (filter is_GetVM (calls (Ctx c)))) (Ref c) = Inr vmObj"
    and "Status vmObj = ''STARTED''"
  shows "reconcilePowerState P c = ((True, None), issue_vm (CallGetVM (Ref c)) c)"
proof -
  have "getPowerState P c = (Inr VirtualMachinePowerStatePoweredOn, issue_vm (CallGetVM (Ref c)) c)"
    using assms by (subst getPowerState_eq) (auto simp: getPowerState_fst)
  then show ?thesis by (simp add: reconcilePowerState_def)
qed

lemma getPowerState_stopped:
  assumes "GetVM_answer P (length (filter is_GetVM (calls (Ctx c)))) (Ref c) = Inr vmObj"
    and "Status vmObj = ''STOPPED''"
  shows "getPowerState P c = (Inr VirtualMachinePowerStatePoweredOff, issue_vm (CallGetVM (Ref c)) c)"
  using assms by (subst getPowerState_eq) (auto simp: getPowerState_fst)

lemma rps_details_fail:
  assumes "GetVM_answer P (length (filter is_GetVM (calls (Ctx c)))) (Ref c) = Inr vmObj"
    and "Status vmObj = ''STOPPED''"
    and "GetVM_answer P (Suc (length (filter is_GetVM (calls (Ctx c))))) (Ref c) = Inl e"
  shows "reconcilePowerState P c =
     ((False, None), issue_vm (CallGetVM (Ref c)) (issue_vm (CallGetVM (Ref c)) c))"
  using assms(3) by (simp add: reconcilePowerState_def getPowerState_stopped[OF assms(1,2)] GetVM_def)

lemma rps_host_fail:
  assumes "GetVM_answer P (length (filter is_GetVM (calls (Ctx c)))) (Ref c) = Inr vmObj"
    and "Status vmObj = ''STOPPED''"
    and "GetVM_answer P (Suc (length (filter is_GetVM (calls (Ctx c))))) (Ref c) = Inr vm"
    and "GetHost_answer P (HostID vm) = Inl e"
  shows "reconcilePowerState P c =
     ((False, None),
      issue_vm (CallGetHost (HostID vm)) (issue_vm (CallGetVM (Ref c)) (issue_vm (CallGetVM (Ref c)) c)))"
  using assms(3,4)
  by (simp add: reconcilePowerState_def getPowerState_stopped[OF assms(1,2)] GetVM_def GetHost_def)

lemma rps_capacity:
  assumes "GetVM_answer P (length (filter is_GetVM (calls (Ctx c)))) (Ref c) = Inr vmObj"
    and "Status vmObj = ''STOPPED''"
    and "GetVM_answer P (Suc (length (filter is_GetVM (calls (Ctx c))))) (Ref c) = Inr vm"
    and "GetHost_answer P (HostID vm) = Inr host"
    and "MemoryInByte vm \<ge> FreeMemoryInByte host \<or> MemoryInByte vm \<ge> LogicFreeMemoryInByte host"
  shows "reconcilePowerState P c =
     ((False, Some (New PoweringOnFailedReason)),
      issue_vm (CallGetHost (HostID vm)) (issue_vm (CallGetVM (Ref c)) (issue_vm (CallGetVM (Ref c)) c)))"
  using assms(3,4,5)
  by (simp add: reconcilePowerState_def getPowerState_stopped[OF assms(1,2)] GetVM_def GetHost_def)

lemma rps_power_on:
  assumes "GetVM_answer P (length (filter is_GetVM (calls (Ctx c)))) (Ref c) = Inr vmObj"
    and "Status vmObj = ''STOPPED''"
    and "GetVM_answer P (Suc (length (filter is_GetVM (calls (Ctx c))))) (Ref c) = Inr vm"
    and "GetHost_answer P (HostID vm) = Inr host"
    and "MemoryInByte vm < FreeMemoryInByte host" "MemoryInByte vm < LogicFreeMemoryInByte host"
  shows "filter is_PowerOnVM (calls (Ctx (snd (reconcilePowerState P c)))) =
           filter is_PowerOnVM (calls (Ctx c)) @ [CallPowerOnVM (Ref c)]"
  using assms(3,4,5,6)
  by (simp add: reconcilePowerState_def getPowerState_stopped[OF assms(1,2)] GetVM_def GetHost_def
      PowerOnVM_def WaitForResult_def reconcileICSVMWhenNetworkIsReady_def Let_def
      split: sum.splits option.splits)

lemma deferred_update:
  assumes "findVM_answer P = Inr vmRef" and "GetNetworkStatus_answer P vmRef = Inr ns"
  shows "ReconcileVM_deferred P c vm =
    (let c2 = snd (reconcileNetworkStatus P (reconcileUUID P \<lparr>Ctx = issue CallFindVM c, Ref = vmRef, VMState = vm\<rparr>));
         r = reconcilePowerState P c2
     in if snd (fst r) \<noteq> None \<or> \<not> fst (fst r) then ((VMState (snd r), snd (fst r)), Ctx (snd r))
        else (((VMState (snd r))\<lparr>State := VirtualMachineStateReady\<rparr>, None), Ctx (snd r)))"
proof -
  have "fst (reconcileNetworkStatus P (reconcileUUID P \<lparr>Ctx = issue CallFindVM c, Ref = vmRef, VMState = vm\<rparr>)) = None"
    using assms(2) by (simp add: reconcileNetworkStatus_ok)
  then show ?thesis
    using assms(1) by (simp add: ReconcileVM_deferred_def findVM_def Let_def case_prod_beta)
qed

lemmas outcome_defs = phase_def returned_error_def issued_def resource_def

lemmas example_defs = example_ICSVM_def example_ctx_def example_bootstrapRef_def example_vm_def
  example_host_def example_platform_def example_secret_def taskPending_def

subsection \<open>The update path of \<open>ReconcileVM\<close>\<close>

lemma deferred_update_snd:
  assumes "findVM_answer P = Inr vmRef" and "GetNetworkStatus_answer P vmRef = Inr ns"
  shows "snd (ReconcileVM_deferred P c vm) =
    Ctx (snd (reconcilePowerState P
      (snd (reconcileNetworkStatus P (reconcileUUID P \<lparr>Ctx = issue CallFindVM c, Ref = vmRef, VMState = vm\<rparr>)))))"
  by (simp add: deferred_update[OF assms] Let_def)

lemma deferred_update_fail:
  assumes "findVM_answer P = Inr vmRef" and "GetNetworkStatus_answer P vmRef = Inr ns"
    and "reconcilePowerState P
      (snd (reconcileNetworkStatus P (reconcileUUID P \<lparr>Ctx = issue CallFindVM c, Ref = vmRef, VMState = vm\<rparr>)))
      = ((False, err), c3)"
  shows "ReconcileVM_deferred P c vm = ((VMState c3, err), Ctx c3)"
  by (simp add: deferred_update[OF assms(1,2)] Let_def assms(3))

text \<open>The context in which the power sync starts.\<close>
lemma power_sync_start:
  fixes P vmRef vm ctx
  defines "c2 \<equiv> snd (reconcileNetworkStatus P (reconcileUUID P
      \<lparr>Ctx = issue CallFindVM (snd (reconcileInFlightTask P ctx)), Ref = vmRef, VMState = vm\<rparr>))"
  assumes "calls ctx = []"
  shows "Ref c2 = vmRef"
    and "State (VMState c2) = State vm"
    and "String (Ctx c2) = String ctx"
    and "length (filter is_GetVM (calls (Ctx c2))) = Suc 0"
    and "filter is_PowerOnVM (calls (Ctx c2)) = []"
    and "filter is_PowerOffVM (calls (Ctx c2)) = []"
    and "filter is_CreateVM (calls (Ctx c2)) = []"
    and "filter is_DeleteVM (calls (Ctx c2)) = []"
  using assms(2) unfolding c2_def
  by (simp_all add: reconcileNetworkStatus_filter guard_filter)

lemma reconcile_transitional:
  assumes "calls ctx = []" and "\<not> taskPending P ctx"
    and "findVM_answer P = Inr vmRef" and "GetNetworkStatus_answer P vmRef = Inr ns"
    and "GetVM_answer P 1 vmRef = Inr vmObj"
    and "Status vmObj \<in> {''PAUSED'', ''RESTARTING'', ''PENDING''}"
  shows "phase (ReconcileVM P ctx) = VirtualMachineStatePending"
    and "returned_error (ReconcileVM P ctx) =
          Some (Errorf ''unexpected power state %q for vm %s''
                  [VirtualMachinePowerState_string VirtualMachinePowerStateSuspended, String ctx])"
    and "filter is_PowerOnVM (issued (ReconcileVM P ctx)) = []"
    and "filter is_PowerOffVM (issued (ReconcileVM P ctx)) = []"
    and "filter is_CreateVM (issued (ReconcileVM P ctx)) = []"
    and "filter is_DeleteVM (issued (ReconcileVM P ctx)) = []"
proof -
  let ?vm = "\<lparr>Name = ICSVM_Name (ICSVM ctx), BiosUUID = [], UID = [],
              State = VirtualMachineStatePending, Network = []\<rparr>"
  let ?c2 = "snd (reconcileNetworkStatus P (reconcileUUID P
      \<lparr>Ctx = issue CallFindVM (snd (reconcileInFlightTask P ctx)), Ref = vmRef, VMState = ?vm\<rparr>))"
  note s = power_sync_start[OF assms(1), of P vmRef ?vm]
  have "GetVM_answer P (length (filter is_GetVM (calls (Ctx ?c2)))) (Ref ?c2) = Inr vmObj"
    using assms(5) by (simp only: s) simp
  note r = rps_suspended[OF this assms(6)]
  note d = deferred_update_fail[OF assms(3,4) r]
  show "phase (ReconcileVM P ctx) = VirtualMachineStatePending"
    by (simp add: ReconcileVM_pass[OF assms(2)] d outcome_defs s)
  show "returned_error (ReconcileVM P ctx) =
          Some (Errorf ''unexpected power state %q for vm %s''
                  [VirtualMachinePowerState_string VirtualMachinePowerStateSuspended, String ctx])"
    by (simp add: ReconcileVM_pass[OF assms(2)] d outcome_defs s)
  show "filter is_PowerOnVM (issued (ReconcileVM P ctx)) = []"
    "filter is_PowerOffVM (issued (ReconcileVM P ctx)) = []"
    "filter is_CreateVM (issued (ReconcileVM P ctx)) = []"
    "filter is_DeleteVM (issued (ReconcileVM P ctx)) = []"
    by (simp_all add: ReconcileVM_pass[OF assms(2)] d outcome_defs s notifier_filter)
qed

lemma reconcile_unrecognized:
  assumes "calls ctx = []" and "\<not> taskPending P ctx"
    and "findVM_answer P = Inr vmRef" and "GetNetworkStatus_answer P vmRef = Inr ns"
    and "GetVM_answer P 1 vmRef = Inr vmObj"
    and "Status vmObj \<notin> {''STARTED'', ''STOPPED'', ''PAUSED'', ''RESTARTING'', ''PENDING''}"
  shows "phase (ReconcileVM P ctx) = VirtualMachineStatePending"
    and "returned_error (ReconcileVM P ctx) =
          Some (Errorf ''unexpected power state %q for vm %s'' [Status vmObj, String ctx])"
proof -
  let ?vm = "\<lparr>Name = ICSVM_Name (ICSVM ctx), BiosUUID = [], UID = [],
              State = VirtualMachineStatePending, Network = []\<rparr>"
  let ?c2 = "snd (reconcileNetworkStatus P (reconcileUUID P
      \<lparr>Ctx = issue CallFindVM (snd (reconcileInFlightTask P ctx)), Ref = vmRef, VMState = ?vm\<rparr>))"
  note s = power_sync_start[OF assms(1), of P vmRef ?vm]
  have "GetVM_answer P (length (filter is_GetVM (calls (Ctx ?c2)))) (Ref ?c2) = Inr vmObj"
    using assms(5) by (simp only: s) simp
  note r = rps_unrecognized[OF this assms(6)]
  note d = deferred_update_fail[OF assms(3,4) r]
  show "phase (ReconcileVM P ctx) = VirtualMachineStatePending"
    by (simp add: ReconcileVM_pass[OF assms(2)] d outcome_defs s)
  show "returned_error (ReconcileVM P ctx) =
          Some (Errorf ''unexpected power state %q for vm %s'' [Status vmObj, String ctx])"
    by (simp add: ReconcileVM_pass[OF assms(2)] d outcome_defs s)
qed

lemma reconcile_capacity_short:
  assumes "calls ctx = []" and "\<not> taskPending P ctx"
    and "findVM_answer P = Inr vmRef" and "GetNetworkStatus_answer P vmRef = Inr ns"
    and "GetVM_answer P 1 vmRef = Inr vmObj" and "Status vmObj = ''STOPPED''"
    and "GetVM_answer P 2 vmRef = Inr vm" and "GetHost_answer P (HostID vm) = Inr host"
    and "MemoryInByte vm \<ge> FreeMemoryInByte host \<or> MemoryInByte vm \<ge> LogicFreeMemoryInByte host"
  shows "phase (ReconcileVM P ctx) = VirtualMachineStatePending"
    and "returned_error (ReconcileVM P ctx) = Some (New PoweringOnFailedReason)"
    and "filter is_PowerOnVM (issued (ReconcileVM P ctx)) = []"
proof -
  let ?vm = "\<lparr>Name = ICSVM_Name (ICSVM ctx), BiosUUID = [], UID = [],
              State = VirtualMachineStatePending, Network = []\<rparr>"
  let ?c2 = "snd (reconcileNetworkStatus P (reconcileUUID P
      \<lparr>Ctx = issue CallFindVM (snd (reconcileInFlightTask P ctx)), Ref = vmRef, VMState = ?vm\<rparr>))"
  note s = power_sync_start[OF assms(1), of P vmRef ?vm]
  have a: "GetVM_answer P (length (filter is_GetVM (calls (Ctx ?c2)))) (Ref ?c2) = Inr vmObj"
    using assms(5) by (simp only: s) simp
  have b: "GetVM_answer P (Suc (length (filter is_GetVM (calls (Ctx ?c2))))) (Ref ?c2) = Inr vm"
    using assms(7) by (simp only: s) (simp add: numeral_2_eq_2)
  note r = rps_capacity[OF a assms(6) b assms(8,9)]
  note d = deferred_update_fail[OF assms(3,4) r]
  show "phase (ReconcileVM P ctx) = VirtualMachineStatePending"
    by (simp add: ReconcileVM_pass[OF assms(2)] d outcome_defs s)
  show "returned_error (ReconcileVM P ctx) = Some (New PoweringOnFailedReason)"
    by (simp add: ReconcileVM_pass[OF assms(2)] d outcome_defs s)
  show "filter is_PowerOnVM (issued (ReconcileVM P ctx)) = []"
    by (simp add: ReconcileVM_pass[OF assms(2)] d outcome_defs s notifier_filter)
qed

lemma reconcile_capacity_enough:
  assumes "calls ctx = []" and "\<not> taskPending P ctx"
    and "findVM_answer P = Inr vmRef" and "GetNetworkStatus_answer P vmRef = Inr ns"
    and "GetVM_answer P 1 vmRef = Inr vmObj" and "Status vmObj = ''STOPPED''"
    and "GetVM_answer P 2 vmRef = Inr vm" and "GetHost_answer P (HostID vm) = Inr host"
    and "MemoryInByte vm < FreeMemoryInByte host" and "MemoryInByte vm < LogicFreeMemoryInByte host"
  shows "filter is_PowerOnVM (issued (ReconcileVM P ctx)) = [CallPowerOnVM vmRef]"
proof -
  let ?vm = "\<lparr>Name = ICSVM_Name (ICSVM ctx), BiosUUID = [], UID = [],
              State = VirtualMachineStatePending, Network = []\<rparr>"
  let ?c2 = "snd (reconcileNetworkStatus P (reconcileUUID P
      \<lparr>Ctx = issue CallFindVM (snd (reconcileInFlightTask P ctx)), Ref = vmRef, VMState = ?vm\<rparr>))"
  note s = power_sync_start[OF assms(1), of P vmRef ?vm]
  have a: "GetVM_answer P (length (filter is_GetVM (calls (Ctx ?c2)))) (Ref ?c2) = Inr vmObj"
    using assms(5) by (simp only: s) simp
  have b: "GetVM_answer P (Suc (length (filter is_GetVM (calls (Ctx ?c2))))) (Ref ?c2) = Inr vm"
    using assms(7) by (simp only: s) (simp add: numeral_2_eq_2)
  note r = rps_power_on[OF a assms(6) b assms(8,9,10)]
  show ?thesis
    by (simp add: ReconcileVM_pass[OF assms(2)] deferred_update_snd[OF assms(3,4)] outcome_defs
        notifier_filter r s)
qed

lemma reconcile_details_unavailable:
  assumes "calls ctx = []" and "\<not> taskPending P ctx"
    and "findVM_answer P = Inr vmRef" and "GetNetworkStatus_answer P vmRef = Inr ns"
    and "GetVM_answer P 1 vmRef = Inr vmObj" and "Status vmObj = ''STOPPED''"
    and "(\<exists>e. GetVM_answer P 2 vmRef = Inl e)
       \<or> (\<exists>vm e. GetVM_answer P 2 vmRef = Inr vm \<and> GetHost_answer P (HostID vm) = Inl e)"
  shows "phase (ReconcileVM P ctx) = VirtualMachineStatePending"
    and "returned_error (ReconcileVM P ctx) = None"
    and "filter is_PowerOnVM (issued (ReconcileVM P ctx)) = []"
proof -
  let ?vm = "\<lparr>Name = ICSVM_Name (ICSVM ctx), BiosUUID = [], UID = [],
              State = VirtualMachineStatePending, Network = []\<rparr>"
  let ?c2 = "snd (reconcileNetworkStatus P (reconcileUUID P
      \<lparr>Ctx = issue CallFindVM (snd (reconcileInFlightTask P ctx)), Ref = vmRef, VMState = ?vm\<rparr>))"
  note s = power_sync_start[OF assms(1), of P vmRef ?vm]
  have a: "GetVM_answer P (length (filter is_GetVM (calls (Ctx ?c2)))) (Ref ?c2) = Inr vmObj"
    using assms(5) by (simp only: s) simp
  have "\<exists>c3. reconcilePowerState P ?c2 = ((False, None), c3)
           \<and> filter is_PowerOnVM (calls (Ctx c3)) = [] \<and> State (VMState c3) = VirtualMachineStatePending"
    using assms(7)
  proof (elim disjE exE conjE)
    fix e assume "GetVM_answer P 2 vmRef = Inl e"
    then have b: "GetVM_answer P (Suc (length (filter is_GetVM (calls (Ctx ?c2))))) (Ref ?c2) = Inl e"
      by (simp only: s) (simp add: numeral_2_eq_2)
    show ?thesis
      by (simp add: rps_details_fail[OF a assms(6) b] s)
  next
    fix vm e assume "GetVM_answer P 2 vmRef = Inr vm" and h: "GetHost_answer P (HostID vm) = Inl e"
    then have b: "GetVM_answer P (Suc (length (filter is_GetVM (calls (Ctx ?c2))))) (Ref ?c2) = Inr vm"
      by (simp only: s) (simp add: numeral_2_eq_2)
    show ?thesis
      by (simp add: rps_host_fail[OF a assms(6) b h] s)
  qed
  then obtain c3 where r: "reconcilePowerState P ?c2 = ((False, None), c3)"
    and c3: "filter is_PowerOnVM (calls (Ctx c3)) = []" "State (VMState c3) = VirtualMachineStatePending"
    by blast
  note d = deferred_update_fail[OF assms(3,4) r]
  show "phase (ReconcileVM P ctx) = VirtualMachineStatePending"
    by (simp add: ReconcileVM_pass[OF assms(2)] d outcome_defs c3)
  show "returned_error (ReconcileVM P ctx) = None"
    by (simp add: ReconcileVM_pass[OF assms(2)] d outcome_defs)
  show "filter is_PowerOnVM (issued (ReconcileVM P ctx)) = []"
    by (simp add: ReconcileVM_pass[OF assms(2)] d outcome_defs c3 notifier_filter)
qed

subsection \<open>The destroy path\<close>

lemma guard_TaskRef_cleared:
  "\<not> taskPending P ctx \<Longrightarrow> Status_TaskRef (ICSVM (snd (reconcileInFlightTask P ctx))) = []"
  by (auto simp: taskPending_def reconcileInFlightTask_def Let_def split: task_report.splits)

lemma getPowerState_started:
  assumes "GetVM_answer P (length (filter is_GetVM (calls (Ctx c)))) (Ref c) = Inr vmObj"
    and "Status vmObj = ''STARTED''"
  shows "getPowerState P c = (Inr VirtualMachinePowerStatePoweredOn, issue_vm (CallGetVM (Ref c)) c)"
  using assms by (subst getPowerState_eq) (auto simp: getPowerState_fst)

lemma destroy_deferred_started:
  assumes "findVM_answer P = Inr vmRef"
    and "GetVM_answer P (length (filter is_GetVM (calls c))) vmRef = Inr vmObj"
    and "Status vmObj = ''STARTED''"
  shows "DestroyVM_deferred P c vm =
     (case PowerOffVM_answer P vmRef of
        Inl err \<Rightarrow> ((vm, Some err), issue (CallPowerOffVM vmRef) (issue (CallGetVM vmRef) (issue CallFindVM c)))
      | Inr task \<Rightarrow> ((vm, None),
          (issue (CallPowerOffVM vmRef) (issue (CallGetVM vmRef) (issue CallFindVM c)))
            \<lparr>ICSVM := (ICSVM c)\<lparr>Status_TaskRef := TaskId task\<rparr>\<rparr>))"
proof -
  let ?c0 = "\<lparr>Ctx = issue CallFindVM c, Ref = vmRef, VMState = vm\<rparr>"
  have "GetVM_answer P (length (filter is_GetVM (calls (Ctx ?c0)))) (Ref ?c0) = Inr vmObj"
    using assms(2) by simp
  note g = getPowerState_started[OF this assms(3)]
  show ?thesis
    using assms(1)
    by (simp add: DestroyVM_deferred_def findVM_def g PowerOffVM_def Let_def split: sum.splits)
       (simp add: set_TaskRef_def issue_vm_def issue_def)
qed

text \<open>A delete call is only reached behind a successful probe and a power state other than PoweredOn.\<close>
lemma destroy_deferred_delete:
  assumes "filter is_DeleteVM (calls (snd (DestroyVM_deferred P c vm))) \<noteq> filter is_DeleteVM (calls c)"
  shows "\<exists>vmRef vmObj. findVM_answer P = Inr vmRef
      \<and> GetVM_answer P (length (filter is_GetVM (calls c))) vmRef = Inr vmObj
      \<and> Status vmObj \<in> {''STOPPED'', ''PAUSED'', ''RESTARTING'', ''PENDING''}"
proof (cases "findVM_answer P")
  case (Inl e)
  with assms show ?thesis by (simp add: DestroyVM_deferred_def findVM_def split: if_splits)
next
  case (Inr vmRef)
  let ?c0 = "\<lparr>Ctx = issue CallFindVM c, Ref = vmRef, VMState = vm\<rparr>"
  show ?thesis
  proof (cases "GetVM_answer P (length (filter is_GetVM (calls c))) vmRef")
    case (Inl e)
    then have "getPowerState P ?c0 = (Inl e, issue_vm (CallGetVM vmRef) ?c0)"
      by (subst getPowerState_eq) (simp add: getPowerState_fst)
    with assms Inr show ?thesis by (simp add: DestroyVM_deferred_def findVM_def)
  next
    case vm: (Inr vmObj)
    show ?thesis
    proof (cases "Status vmObj \<in> {''STOPPED'', ''PAUSED'', ''RESTARTING'', ''PENDING''}")
      case True
      with Inr vm show ?thesis by blast
    next
      case False
      show ?thesis
      proof (cases "Status vmObj = ''STARTED''")
        case True
        from assms show ?thesis
          by (simp add: destroy_deferred_started[OF Inr vm True] split: sum.splits)
      next
        case ns: False
        with False vm have "getPowerState P ?c0 =
            (Inl (Errorf ''unexpected power state %q for vm %s'' [Status vmObj, String c]),
             issue_vm (CallGetVM vmRef) ?c0)"
          by (subst getPowerState_eq) (simp add: getPowerState_fst)
        with assms Inr show ?thesis by (simp add: DestroyVM_deferred_def findVM_def)
      qed
    qed
  qed
qed

lemma rps_no_delete:
  "filter is_DeleteVM (calls (Ctx (snd (reconcilePowerState P c)))) = filter is_DeleteVM (calls (Ctx c))"
  by (simp add: reconcilePowerState_def case_prod_beta GetVM_def GetHost_def PowerOnVM_def
      WaitForResult_def reconcileICSVMWhenNetworkIsReady_def Let_def
      split: sum.splits option.splits)

lemma reconcile_deferred_no_delete:
  "filter is_DeleteVM (calls (snd (ReconcileVM_deferred P c vm))) = filter is_DeleteVM (calls c)"
proof (cases "findVM_answer P")
  case (Inl e)
  then show ?thesis
    by (simp add: ReconcileVM_deferred_def findVM_def getBootstrapData_def SecretGet_def CreateVM_def
        split: option.splits sum.splits)
next
  case (Inr vmRef)
  let ?c1 = "reconcileUUID P \<lparr>Ctx = issue CallFindVM c, Ref = vmRef, VMState = vm\<rparr>"
  show ?thesis
  proof (cases "fst (reconcileNetworkStatus P ?c1)")
    case None
    then show ?thesis
      using Inr
      by (simp add: ReconcileVM_deferred_def findVM_def Let_def case_prod_beta rps_no_delete
          reconcileNetworkStatus_filter)
  next
    case (Some err)
    then show ?thesis
      using Inr
      by (simp add: ReconcileVM_deferred_def findVM_def Let_def case_prod_beta
          reconcileNetworkStatus_filter)
  qed
qed

lemma ReconcileVM_never_deletes:
  assumes "calls ctx = []"
  shows "filter is_DeleteVM (issued (ReconcileVM P ctx)) = []"
proof (cases "taskPending P ctx")
  case True
  then show ?thesis using assms by (simp add: ReconcileVM_pending outcome_defs)
next
  case False
  then show ?thesis
    using assms
    by (simp add: ReconcileVM_pass outcome_defs notifier_filter reconcile_deferred_no_delete guard_filter)
qed

lemma destroy_started:
  assumes "calls ctx = []" and "\<not> taskPending P ctx"
    and "findVM_answer P = Inr vmRef" and "GetVM_answer P 0 vmRef = Inr vmObj"
    and "Status vmObj = ''STARTED''"
  shows "filter is_PowerOffVM (issued (DestroyVM P ctx)) = [CallPowerOffVM vmRef]"
    and "filter is_DeleteVM (issued (DestroyVM P ctx)) = []"
    and "phase (DestroyVM P ctx) = VirtualMachineStatePending"
    and "PowerOffVM_answer P vmRef = Inr task \<Longrightarrow>
           Status_TaskRef (resource (DestroyVM P ctx)) = TaskId task \<and> returned_error (DestroyVM P ctx) = None"
    and "PowerOffVM_answer P vmRef = Inl err \<Longrightarrow>
           Status_TaskRef (resource (DestroyVM P ctx)) = [] \<and> returned_error (DestroyVM P ctx) = Some err"
proof -
  let ?g = "snd (reconcileInFlightTask P ctx)"
  have n: "filter is_GetVM (calls ?g) = []" using assms(1) by (simp add: guard_filter)
  have "GetVM_answer P (length (filter is_GetVM (calls ?g))) vmRef = Inr vmObj"
    using assms(4) by (simp add: n)
  note d = destroy_deferred_started[OF assms(3) this assms(5)]
  have f: "filter p (calls ?g) = []" if "\<forall>t. \<not> p (CallGetTask t)" for p
    using that assms(1) by (simp add: guard_filter)
  show "filter is_PowerOffVM (issued (DestroyVM P ctx)) = [CallPowerOffVM vmRef]"
    by (simp add: DestroyVM_pass[OF assms(2)] d outcome_defs notifier_filter f split: sum.splits)
  show "filter is_DeleteVM (issued (DestroyVM P ctx)) = []"
    by (simp add: DestroyVM_pass[OF assms(2)] d outcome_defs notifier_filter f split: sum.splits)
  show "phase (DestroyVM P ctx) = VirtualMachineStatePending"
    by (simp add: DestroyVM_pass[OF assms(2)] d outcome_defs split: sum.splits)
  show "PowerOffVM_answer P vmRef = Inr task \<Longrightarrow>
           Status_TaskRef (resource (DestroyVM P ctx)) = TaskId task \<and> returned_error (DestroyVM P ctx) = None"
    by (simp add: DestroyVM_pass[OF assms(2)] d outcome_defs)
  show "PowerOffVM_answer P vmRef = Inl err \<Longrightarrow>
           Status_TaskRef (resource (DestroyVM P ctx)) = [] \<and> returned_error (DestroyVM P ctx) = Some err"
    by (simp add: DestroyVM_pass[OF assms(2)] d outcome_defs guard_TaskRef_cleared[OF assms(2)])
qed

lemma destroy_delete_only_when_not_on:
  assumes "calls ctx = []" and "filter is_DeleteVM (issued (DestroyVM P ctx)) \<noteq> []"
  shows "\<exists>vmRef vmObj. findVM_answer P = Inr vmRef \<and> GetVM_answer P 0 vmRef = Inr vmObj
      \<and> Status vmObj \<in> {''STOPPED'', ''PAUSED'', ''RESTARTING'', ''PENDING''}"
proof (cases "taskPending P ctx")
  case True
  with assms show ?thesis by (simp add: DestroyVM_pending outcome_defs)
next
  case False
  let ?g = "snd (reconcileInFlightTask P ctx)"
  let ?vm = "\<lparr>Name = ICSVM_Name (ICSVM ctx), BiosUUID = [], UID = [],
              State = VirtualMachineStatePending, Network = []\<rparr>"
  have n: "filter is_GetVM (calls ?g) = []" "filter is_DeleteVM (calls ?g) = []"
    using assms(1) by (simp_all add: guard_filter)
  from assms(2) have "filter is_DeleteVM (calls (snd (DestroyVM_deferred P ?g ?vm))) \<noteq> filter is_DeleteVM (calls ?g)"
    by (simp add: DestroyVM_pass[OF False] outcome_defs notifier_filter n)
  from destroy_deferred_delete[OF this] show ?thesis by (simp add: n)
qed

subsection \<open>The discovery poller: an invariant of all reachable worlds\<close>


































section \<open>The claims\<close>

text \<open>
  Claim C1, as amended. The claim says that a transitional remote power state
  (Suspended / Restarting / Pending) makes \<open>ReconcileVM\<close> return Pending without an
  error. \<open>getPowerState\<close> maps the statuses \<open>PAUSED\<close>, \<open>RESTARTING\<close> and \<open>PENDING\<close> to
  Suspended, and the \<^verbatim>\<open>default\<close> branch of the switch in \<open>reconcilePowerState\<close> turns
  every state other than PoweredOff and PoweredOn into the error "unexpected power
  state". So: in a pass that reaches the power sync, a transitional status gives phase
  Pending together with that error, and no create, power or delete call; a status
  that \<open>getPowerState\<close> does not recognise gives phase Pending and the error of
  \<open>getPowerState\<close>. Both are errors of the pass.
\<close>

theorem transitional_power_state_is_an_error:
  assumes "calls ctx = []" and "\<not> taskPending P ctx"
    and "findVM_answer P = Inr vmRef" and "GetNetworkStatus_answer P vmRef = Inr ns"
    and "GetVM_answer P 1 vmRef = Inr vmObj"
  shows "(Status vmObj \<in> {''PAUSED'', ''RESTARTING'', ''PENDING''} \<longrightarrow>
            phase (ReconcileVM P ctx) = VirtualMachineStatePending
          \<and> returned_error (ReconcileVM P ctx) =
              Some (Errorf ''unexpected power state %q for vm %s''
                      [VirtualMachinePowerState_string VirtualMachinePowerStateSuspended, String ctx])
          \<and> filter (\<lambda>c. is_CreateVM c \<or> is_PowerOnVM c \<or> is_PowerOffVM c \<or> is_DeleteVM c)
               (issued (ReconcileVM P ctx)) = [])
       \<and> (Status vmObj \<notin> {''STARTED'', ''STOPPED'', ''PAUSED'', ''RESTARTING'', ''PENDING''} \<longrightarrow>
            phase (ReconcileVM P ctx) = VirtualMachineStatePending
          \<and> returned_error (ReconcileVM P ctx) =
              Some (Errorf ''unexpected power state %q for vm %s'' [Status vmObj, String ctx]))"
proof (intro conjI impI)
  assume t: "Status vmObj \<in> {''PAUSED'', ''RESTARTING'', ''PENDING''}"
  note r = reconcile_transitional[OF assms t]
  show "phase (ReconcileVM P ctx) = VirtualMachineStatePending" by (rule r)
  show "returned_error (ReconcileVM P ctx) =
      Some (Errorf ''unexpected power state %q for vm %s''
              [VirtualMachinePowerState_string VirtualMachinePowerStateSuspended, String ctx])"
    by (rule r)
  have "filter P1 xs = [] \<Longrightarrow> filter P2 xs = [] \<Longrightarrow> filter P3 xs = [] \<Longrightarrow> filter P4 xs = []
      \<Longrightarrow> filter (\<lambda>c. P1 c \<or> P2 c \<or> P3 c \<or> P4 c) xs = []" for P1 P2 P3 P4 and xs :: "call list"
    by (auto simp: filter_empty_conv)
  from this[OF r(5) r(3) r(4) r(6)]
  show "filter (\<lambda>c. is_CreateVM c \<or> is_PowerOnVM c \<or> is_PowerOffVM c \<or> is_DeleteVM c)
               (issued (ReconcileVM P ctx)) = []" .
next
  assume u: "Status vmObj \<notin> {''STARTED'', ''STOPPED'', ''PAUSED'', ''RESTARTING'', ''PENDING''}"
  note r = reconcile_unrecognized[OF assms u]
  show "phase (ReconcileVM P ctx) = VirtualMachineStatePending" by (rule r)
  show "returned_error (ReconcileVM P ctx) =
      Some (Errorf ''unexpected power state %q for vm %s'' [Status vmObj, String ctx])"
    by (rule r)
qed

theorem transitional_power_state_is_an_error_witness:
  "returned_error (ReconcileVM
      (example_platform (Inr ''vm-1'') ''RESTARTING'' (Inl (ErrRemote ''down'')) (Inl (ErrRemote ''down'')) example_secret)
      (example_ctx None [])) =
     Some (Errorf ''unexpected power state %q for vm %s''
             [''suspended'', ''infrastructure.cluster.x-k8s.io/v1beta1, Kind=ICSVM default/vm-0''])
   \<and> returned_error (ReconcileVM
      (example_platform (Inr ''vm-1'') ''MIGRATING'' (Inl (ErrRemote ''down'')) (Inl (ErrRemote ''down'')) example_secret)
      (example_ctx None [])) =
     Some (Errorf ''unexpected power state %q for vm %s''
             [''MIGRATING'', ''infrastructure.cluster.x-k8s.io/v1beta1, Kind=ICSVM default/vm-0''])"
  using transitional_power_state_is_an_error[where ctx = "example_ctx None []"
      and P = "example_platform (Inr ''vm-1'') ''RESTARTING'' (Inl (ErrRemote ''down'')) (Inl (ErrRemote ''down'')) example_secret"
      and vmRef = "''vm-1''" and ns = "[]" and vmObj = "example_vm ''RESTARTING''"]
    transitional_power_state_is_an_error[where ctx = "example_ctx None []"
      and P = "example_platform (Inr ''vm-1'') ''MIGRATING'' (Inl (ErrRemote ''down'')) (Inl (ErrRemote ''down'')) example_secret"
      and vmRef = "''vm-1''" and ns = "[]" and vmObj = "example_vm ''MIGRATING''"]
  by (simp add: example_defs String_def)

text \<open>
  The claim as stated fails: the VM is found, the network sync succeeds, the platform
  reports \<open>PAUSED\<close>, and the pass returns an error.
\<close>

theorem transitional_power_state_counterexample:
  "GetVM_answer (example_platform (Inr ''vm-1'') ''PAUSED'' (Inl (ErrRemote ''down'')) (Inl (ErrRemote ''down'')) example_secret)
      1 ''vm-1'' = Inr (example_vm ''PAUSED'')
   \<and> Status (example_vm ''PAUSED'') = ''PAUSED''
   \<and> returned_error (ReconcileVM
      (example_platform (Inr ''vm-1'') ''PAUSED'' (Inl (ErrRemote ''down'')) (Inl (ErrRemote ''down'')) example_secret)
      (example_ctx None [])) \<noteq> None"
  using reconcile_transitional(2)[where ctx = "example_ctx None []"
      and P = "example_platform (Inr ''vm-1'') ''PAUSED'' (Inl (ErrRemote ''down'')) (Inl (ErrRemote ''down'')) example_secret"
      and vmRef = "''vm-1''" and ns = "[]" and vmObj = "example_vm ''PAUSED''"]
  by (simp add: example_defs)

text \<open>
  Claim C2 says that a transient failure of the probe issues no create call and is
  returned as a retryable error. \<open>ReconcileVM\<close> takes the create path on every error of
  \<open>findVM\<close>, without asking \<open>isNotFound\<close> as \<open>DestroyVM\<close> does. What the code does when
  the probe fails with an error other than not-found while the bootstrap secret is
  readable: it issues one create call with the bootstrap payload, and the error of the
  pass is the answer of that create call, so the probe's error is not returned.
\<close>

theorem transient_probe_still_creates:
  assumes "calls ctx = []" and "\<not> taskPending P ctx"
    and "findVM_answer P = Inl e" and "\<not> isNotFound e"
    and "Spec_BootstrapRef (ICSVM ctx) = Some k"
    and "SecretGet_answer P (Ref_Namespace k) (Ref_Name k) = Inr secretData"
    and "secretData ''value'' = Some v"
  shows "filter is_CreateVM (issued (ReconcileVM P ctx)) = [CallCreateVM v]
       \<and> returned_error (ReconcileVM P ctx) = CreateVM_answer P v"
proof -
  let ?g = "snd (reconcileInFlightTask P ctx)"
  have "Spec_BootstrapRef (ICSVM ?g) = Some k" using assms(5) by simp
  note d = create_with_value[OF assms(3) this assms(6,7)]
  show ?thesis
    using assms(1)
    by (simp add: ReconcileVM_pass[OF assms(2)] d outcome_defs notifier_filter guard_filter)
qed

theorem transient_probe_still_creates_witness:
  "\<not> isNotFound (ErrRemote ''connection refused'')
   \<and> findVM_answer (example_platform (Inl (ErrRemote ''connection refused'')) ''STARTED'' (Inl (ErrRemote ''down'')) (Inl (ErrRemote ''down'')) example_secret)
       = Inl (ErrRemote ''connection refused'')
   \<and> filter is_CreateVM (issued (ReconcileVM (example_platform (Inl (ErrRemote ''connection refused'')) ''STARTED'' (Inl (ErrRemote ''down'')) (Inl (ErrRemote ''down'')) example_secret)
      (example_ctx (Some example_bootstrapRef) []))) = [CallCreateVM ''#cloud-config'']
   \<and> returned_error (ReconcileVM (example_platform (Inl (ErrRemote ''connection refused'')) ''STARTED'' (Inl (ErrRemote ''down'')) (Inl (ErrRemote ''down'')) example_secret)
      (example_ctx (Some example_bootstrapRef) [])) = None"
  using transient_probe_still_creates[where ctx = "example_ctx (Some example_bootstrapRef) []"
      and P = "example_platform (Inl (ErrRemote ''connection refused'')) ''STARTED'' (Inl (ErrRemote ''down'')) (Inl (ErrRemote ''down'')) example_secret"
      and e = "ErrRemote ''connection refused''" and k = example_bootstrapRef
      and secretData = example_secret and v = "''#cloud-config''"]
  by (simp add: example_defs)

text \<open>
  Claim C3 (capacity guard). The VM is probed as PoweredOff (status \<open>STOPPED\<close> on the
  power probe, the second \<^verbatim>\<open>GetVM\<close> of the pass), its details (third \<^verbatim>\<open>GetVM\<close>) give the
  memory requirement \<open>M\<close> and its host, and the host reports free memory \<open>F\<close> and logical
  free memory \<open>L\<close>. If \<open>M \<ge> F\<close> or \<open>M \<ge> L\<close>, no power-on call is issued and the pass
  fails with \<open>PoweringOnFailedReason\<close>; if \<open>M < F\<close> and \<open>M < L\<close>, exactly one power-on
  call is issued in the pass.
\<close>

theorem capacity_guard:
  assumes "calls ctx = []" and "\<not> taskPending P ctx"
    and "findVM_answer P = Inr vmRef" and "GetNetworkStatus_answer P vmRef = Inr ns"
    and "GetVM_answer P 1 vmRef = Inr vmObj" and "Status vmObj = ''STOPPED''"
    and "GetVM_answer P 2 vmRef = Inr vm" and "GetHost_answer P (HostID vm) = Inr host"
  shows "(MemoryInByte vm \<ge> FreeMemoryInByte host \<or> MemoryInByte vm \<ge> LogicFreeMemoryInByte host \<longrightarrow>
            filter is_PowerOnVM (issued (ReconcileVM P ctx)) = []
          \<and> returned_error (ReconcileVM P ctx) = Some (New PoweringOnFailedReason)
          \<and> phase (ReconcileVM P ctx) = VirtualMachineStatePending)
       \<and> (MemoryInByte vm < FreeMemoryInByte host \<and> MemoryInByte vm < LogicFreeMemoryInByte host \<longrightarrow>
            filter is_PowerOnVM (issued (ReconcileVM P ctx)) = [CallPowerOnVM vmRef])"
  using reconcile_capacity_short[OF assms] reconcile_capacity_enough[OF assms]
  by blast

theorem capacity_guard_witness:
  "filter is_PowerOnVM (issued (ReconcileVM
      (example_platform (Inr ''vm-1'') ''STOPPED'' (Inr (example_host 8192 4096)) (Inr \<lparr>TaskId = ''task-on''\<rparr>) example_secret)
      (example_ctx None []))) = []
   \<and> returned_error (ReconcileVM
      (example_platform (Inr ''vm-1'') ''STOPPED'' (Inr (example_host 8192 4096)) (Inr \<lparr>TaskId = ''task-on''\<rparr>) example_secret)
      (example_ctx None [])) = Some (New PoweringOnFailedReason)
   \<and> filter is_PowerOnVM (issued (ReconcileVM
      (example_platform (Inr ''vm-1'') ''STOPPED'' (Inr (example_host 8192 4097)) (Inr \<lparr>TaskId = ''task-on''\<rparr>) example_secret)
      (example_ctx None []))) = [CallPowerOnVM ''vm-1'']"
  using capacity_guard[where ctx = "example_ctx None []"
      and P = "example_platform (Inr ''vm-1'') ''STOPPED'' (Inr (example_host 8192 4096)) (Inr \<lparr>TaskId = ''task-on''\<rparr>) example_secret"
      and vmRef = "''vm-1''" and ns = "[]" and vmObj = "example_vm ''STOPPED''"
      and vm = "example_vm ''STOPPED''" and host = "example_host 8192 4096"]
    capacity_guard[where ctx = "example_ctx None []"
      and P = "example_platform (Inr ''vm-1'') ''STOPPED'' (Inr (example_host 8192 4097)) (Inr \<lparr>TaskId = ''task-on''\<rparr>) example_secret"
      and vmRef = "''vm-1''" and ns = "[]" and vmObj = "example_vm ''STOPPED''"
      and vm = "example_vm ''STOPPED''" and host = "example_host 8192 4097"]
  by (simp add: example_defs)

text \<open>
  Claim C4, as amended. In a \<open>DestroyVM\<close> pass that finds the VM and reads it as
  PoweredOn (status \<open>STARTED\<close>), exactly one power-off call and no delete call is
  issued, and the phase is Pending. The claim goes on to say that the task id is stored
  and no error returned in every such pass; that holds when the power-off call returns
  a task. When the call itself fails, its error is returned and no task reference is
  stored. A delete call is issued by \<open>DestroyVM\<close> only in a pass whose probe found the VM
  and whose power probe read a state other than PoweredOn, and never by \<open>ReconcileVM\<close>.
\<close>

theorem destroy_ordering:
  assumes "calls ctx = []"
  shows "(\<not> taskPending P ctx \<and> findVM_answer P = Inr vmRef \<and> GetVM_answer P 0 vmRef = Inr vmObj
            \<and> Status vmObj = ''STARTED'' \<longrightarrow>
            filter is_PowerOffVM (issued (DestroyVM P ctx)) = [CallPowerOffVM vmRef]
          \<and> filter is_DeleteVM (issued (DestroyVM P ctx)) = []
          \<and> phase (DestroyVM P ctx) = VirtualMachineStatePending
          \<and> (\<forall>task. PowerOffVM_answer P vmRef = Inr task \<longrightarrow>
                Status_TaskRef (resource (DestroyVM P ctx)) = TaskId task
              \<and> returned_error (DestroyVM P ctx) = None)
          \<and> (\<forall>err. PowerOffVM_answer P vmRef = Inl err \<longrightarrow>
                Status_TaskRef (resource (DestroyVM P ctx)) = []
              \<and> returned_error (DestroyVM P ctx) = Some err))
       \<and> (filter is_DeleteVM (issued (DestroyVM P ctx)) \<noteq> [] \<longrightarrow>
            (\<exists>r v. findVM_answer P = Inr r \<and> GetVM_answer P 0 r = Inr v
               \<and> Status v \<in> {''STOPPED'', ''PAUSED'', ''RESTARTING'', ''PENDING''}))
       \<and> filter is_DeleteVM (issued (ReconcileVM P ctx)) = []"
proof (intro conjI impI allI)
  assume a: "\<not> taskPending P ctx \<and> findVM_answer P = Inr vmRef \<and> GetVM_answer P 0 vmRef = Inr vmObj
            \<and> Status vmObj = ''STARTED''"
  then have np: "\<not> taskPending P ctx" and f: "findVM_answer P = Inr vmRef"
    and g: "GetVM_answer P 0 vmRef = Inr vmObj" and s: "Status vmObj = ''STARTED''"
    by blast+
  note d = destroy_started[OF assms np f g s]
  show "filter is_PowerOffVM (issued (DestroyVM P ctx)) = [CallPowerOffVM vmRef]" by (rule d)
  show "filter is_DeleteVM (issued (DestroyVM P ctx)) = []" by (rule d)
  show "phase (DestroyVM P ctx) = VirtualMachineStatePending" by (rule d)
  show "Status_TaskRef (resource (DestroyVM P ctx)) = TaskId task"
    if "PowerOffVM_answer P vmRef = Inr task" for task
    using d(4)[OF that] by blast
  show "returned_error (DestroyVM P ctx) = None"
    if "PowerOffVM_answer P vmRef = Inr task" for task
    using d(4)[OF that] by blast
  show "Status_TaskRef (resource (DestroyVM P ctx)) = []"
    if "PowerOffVM_answer P vmRef = Inl err" for err
    using d(5)[OF that] by blast
  show "returned_error (DestroyVM P ctx) = Some err"
    if "PowerOffVM_answer P vmRef = Inl err" for err
    using d(5)[OF that] by blast
next
  assume "filter is_DeleteVM (issued (DestroyVM P ctx)) \<noteq> []"
  from destroy_delete_only_when_not_on[OF assms this]
  show "\<exists>r v. findVM_answer P = Inr r \<and> GetVM_answer P 0 r = Inr v
               \<and> Status v \<in> {''STOPPED'', ''PAUSED'', ''RESTARTING'', ''PENDING''}" .
next
  show "filter is_DeleteVM (issued (ReconcileVM P ctx)) = []"
    by (rule ReconcileVM_never_deletes[OF assms])
qed

theorem destroy_ordering_witness:
  "filter is_PowerOffVM (issued (DestroyVM
      (example_platform (Inr ''vm-1'') ''STARTED'' (Inl (ErrRemote ''down'')) (Inr \<lparr>TaskId = ''task-off''\<rparr>) example_secret)
      (example_ctx None []))) = [CallPowerOffVM ''vm-1'']
   \<and> filter is_DeleteVM (issued (DestroyVM
      (example_platform (Inr ''vm-1'') ''STARTED'' (Inl (ErrRemote ''down'')) (Inr \<lparr>TaskId = ''task-off''\<rparr>) example_secret)
      (example_ctx None []))) = []
   \<and> Status_TaskRef (resource (DestroyVM
      (example_platform (Inr ''vm-1'') ''STARTED'' (Inl (ErrRemote ''down'')) (Inr \<lparr>TaskId = ''task-off''\<rparr>) example_secret)
      (example_ctx None []))) = ''task-off''
   \<and> returned_error (DestroyVM
      (example_platform (Inr ''vm-1'') ''STARTED'' (Inl (ErrRemote ''down'')) (Inr \<lparr>TaskId = ''task-off''\<rparr>) example_secret)
      (example_ctx None [])) = None"
  using destroy_ordering[where ctx = "example_ctx None []"
      and P = "example_platform (Inr ''vm-1'') ''STARTED'' (Inl (ErrRemote ''down'')) (Inr \<lparr>TaskId = ''task-off''\<rparr>) example_secret"
      and vmRef = "''vm-1''" and vmObj = "example_vm ''STARTED''"]
  by (simp add: example_defs)

text \<open>
  The claim as stated fails: the VM is found and reported PoweredOn, the platform
  rejects the power-off call, and the pass returns that error with no task reference.
\<close>

theorem destroy_ordering_counterexample:
  "findVM_answer (example_platform (Inr ''vm-1'') ''STARTED'' (Inl (ErrRemote ''down'')) (Inl (ErrRemote ''power-off rejected'')) example_secret)
      = Inr ''vm-1''
   \<and> GetVM_answer (example_platform (Inr ''vm-1'') ''STARTED'' (Inl (ErrRemote ''down'')) (Inl (ErrRemote ''power-off rejected'')) example_secret)
      0 ''vm-1'' = Inr (example_vm ''STARTED'')
   \<and> Status (example_vm ''STARTED'') = ''STARTED''
   \<and> returned_error (DestroyVM
      (example_platform (Inr ''vm-1'') ''STARTED'' (Inl (ErrRemote ''down'')) (Inl (ErrRemote ''power-off rejected'')) example_secret)
      (example_ctx None [])) = Some (ErrRemote ''power-off rejected'')
   \<and> Status_TaskRef (resource (DestroyVM
      (example_platform (Inr ''vm-1'') ''STARTED'' (Inl (ErrRemote ''down'')) (Inl (ErrRemote ''power-off rejected'')) example_secret)
      (example_ctx None []))) = []"
  using destroy_started(5)[where ctx = "example_ctx None []"
      and P = "example_platform (Inr ''vm-1'') ''STARTED'' (Inl (ErrRemote ''down'')) (Inl (ErrRemote ''power-off rejected'')) example_secret"
      and vmRef = "''vm-1''" and vmObj = "example_vm ''STARTED''" and err = "ErrRemote ''power-off rejected''"]
  by (simp add: example_defs)

text \<open>
  Claim C5 (task-guard exclusivity). When the resource stores a task reference that the
  platform reports as still pending, both \<open>ReconcileVM\<close> and \<open>DestroyVM\<close> return at
  once: phase Pending, no error, the resource (and so its status) unchanged, and the
  only call of the pass is the guard's own query of the task; in particular no probe,
  create, power or delete call is issued.
\<close>

theorem task_guard_exclusivity:
  assumes "taskPending P ctx" and "calls ctx = []"
  shows "phase (ReconcileVM P ctx) = VirtualMachineStatePending
       \<and> returned_error (ReconcileVM P ctx) = None
       \<and> resource (ReconcileVM P ctx) = ICSVM ctx
       \<and> issued (ReconcileVM P ctx) = [CallGetTask (Status_TaskRef (ICSVM ctx))]
       \<and> filter (\<lambda>c. is_probe c \<or> is_CreateVM c \<or> is_PowerOnVM c \<or> is_PowerOffVM c \<or> is_DeleteVM c)
            (issued (ReconcileVM P ctx)) = []
       \<and> phase (DestroyVM P ctx) = VirtualMachineStatePending
       \<and> returned_error (DestroyVM P ctx) = None
       \<and> resource (DestroyVM P ctx) = ICSVM ctx
       \<and> issued (DestroyVM P ctx) = [CallGetTask (Status_TaskRef (ICSVM ctx))]
       \<and> filter (\<lambda>c. is_probe c \<or> is_CreateVM c \<or> is_PowerOnVM c \<or> is_PowerOffVM c \<or> is_DeleteVM c)
            (issued (DestroyVM P ctx)) = []"
  using assms(2)
  by (simp add: ReconcileVM_pending[OF assms(1)] DestroyVM_pending[OF assms(1)] outcome_defs)

theorem task_guard_exclusivity_witness:
  "taskPending (example_platform (Inr ''vm-1'') ''STARTED'' (Inl (ErrRemote ''down'')) (Inl (ErrRemote ''down'')) example_secret)
     (example_ctx None ''task-7'')
   \<and> issued (ReconcileVM (example_platform (Inr ''vm-1'') ''STARTED'' (Inl (ErrRemote ''down'')) (Inl (ErrRemote ''down'')) example_secret)
      (example_ctx None ''task-7'')) = [CallGetTask ''task-7'']
   \<and> returned_error (DestroyVM (example_platform (Inr ''vm-1'') ''STARTED'' (Inl (ErrRemote ''down'')) (Inl (ErrRemote ''down'')) example_secret)
      (example_ctx None ''task-7'')) = None
   \<and> Status_TaskRef (resource (DestroyVM (example_platform (Inr ''vm-1'') ''STARTED'' (Inl (ErrRemote ''down'')) (Inl (ErrRemote ''down'')) example_secret)
      (example_ctx None ''task-7''))) = ''task-7''"
  using task_guard_exclusivity[of "example_platform (Inr ''vm-1'') ''STARTED'' (Inl (ErrRemote ''down'')) (Inl (ErrRemote ''down'')) example_secret"
      "example_ctx None ''task-7''"]
  by (simp add: example_defs)

text \<open>
  Claim C6 (not-found convergence). A \<open>DestroyVM\<close> pass with no in-flight task whose
  probe reports the remote VM as not found returns phase NotFound with no error, and
  issues neither a power-off nor a delete call.
\<close>

theorem destroy_not_found:
  assumes "calls ctx = []" and "\<not> taskPending P ctx"
    and "findVM_answer P = Inl e" and "isNotFound e"
  shows "phase (DestroyVM P ctx) = VirtualMachineStateNotFound
       \<and> returned_error (DestroyVM P ctx) = None
       \<and> filter is_PowerOffVM (issued (DestroyVM P ctx)) = []
       \<and> filter is_DeleteVM (issued (DestroyVM P ctx)) = []"
proof -
  let ?g = "snd (reconcileInFlightTask P ctx)"
  have d: "DestroyVM_deferred P ?g vm =
      ((vm\<lparr>State := VirtualMachineStateNotFound\<rparr>, None), issue CallFindVM ?g)" for vm
    using assms(3,4) by (simp add: DestroyVM_deferred_def findVM_def)
  show ?thesis
    using assms(1)
    by (simp add: DestroyVM_pass[OF assms(2)] d outcome_defs notifier_filter guard_filter)
qed

theorem destroy_not_found_witness:
  "phase (DestroyVM (example_platform (Inl (ErrNotFound ''vm-0'')) ''STARTED'' (Inl (ErrRemote ''down'')) (Inl (ErrRemote ''down'')) example_secret)
     (example_ctx None [])) = VirtualMachineStateNotFound
   \<and> returned_error (DestroyVM (example_platform (Inl (ErrNotFound ''vm-0'')) ''STARTED'' (Inl (ErrRemote ''down'')) (Inl (ErrRemote ''down'')) example_secret)
     (example_ctx None [])) = None"
  using destroy_not_found[of "example_ctx None []"
      "example_platform (Inl (ErrNotFound ''vm-0'')) ''STARTED'' (Inl (ErrRemote ''down'')) (Inl (ErrRemote ''down'')) example_secret"
      "ErrNotFound ''vm-0''"]
  by (simp add: example_defs)

text \<open>
  Claim C7 (missing bootstrap). For a new resource (the probe reports not found):
  without a bootstrap reference \<open>ReconcileVM\<close> returns the error that names the missing
  reference and issues no create call; with a reference to a secret that has no key
  \<open>value\<close> it returns the error that names the missing key, and issues no create call.
\<close>

theorem missing_bootstrap:
  assumes "calls ctx = []" and "\<not> taskPending P ctx"
    and "findVM_answer P = Inl e" and "isNotFound e"
  shows "(Spec_BootstrapRef (ICSVM ctx) = None \<longrightarrow>
            returned_error (ReconcileVM P ctx) =
              Some (New ''error retrieving bootstrap data: linked icsvm's bootstrapRef is nil'')
          \<and> filter is_CreateVM (issued (ReconcileVM P ctx)) = [])
       \<and> (\<forall>k secretData.
            Spec_BootstrapRef (ICSVM ctx) = Some k
            \<and> SecretGet_answer P (Ref_Namespace k) (Ref_Name k) = Inr secretData
            \<and> secretData ''value'' = None \<longrightarrow>
            returned_error (ReconcileVM P ctx) =
              Some (New ''error retrieving bootstrap data: secret value key is missing'')
          \<and> filter is_CreateVM (issued (ReconcileVM P ctx)) = [])"
proof (intro conjI impI allI)
  let ?g = "snd (reconcileInFlightTask P ctx)"
  assume n: "Spec_BootstrapRef (ICSVM ctx) = None"
  then have "Spec_BootstrapRef (ICSVM ?g) = None" by simp
  note d = create_no_bootstrapRef[OF assms(3) this]
  show "returned_error (ReconcileVM P ctx) =
      Some (New ''error retrieving bootstrap data: linked icsvm's bootstrapRef is nil'')"
    by (simp add: ReconcileVM_pass[OF assms(2)] d outcome_defs)
  show "filter is_CreateVM (issued (ReconcileVM P ctx)) = []"
    using assms(1) by (simp add: ReconcileVM_pass[OF assms(2)] d outcome_defs notifier_filter guard_filter)
next
  let ?g = "snd (reconcileInFlightTask P ctx)"
  fix k secretData
  assume a: "Spec_BootstrapRef (ICSVM ctx) = Some k
            \<and> SecretGet_answer P (Ref_Namespace k) (Ref_Name k) = Inr secretData
            \<and> secretData ''value'' = None"
  then have "Spec_BootstrapRef (ICSVM ?g) = Some k" by simp
  note d = create_no_value_key[OF assms(3) this, of secretData] 
  show "returned_error (ReconcileVM P ctx) =
      Some (New ''error retrieving bootstrap data: secret value key is missing'')"
    using a by (simp add: ReconcileVM_pass[OF assms(2)] d outcome_defs)
  show "filter is_CreateVM (issued (ReconcileVM P ctx)) = []"
    using a assms(1) by (simp add: ReconcileVM_pass[OF assms(2)] d outcome_defs notifier_filter guard_filter)
qed

theorem missing_bootstrap_witness:
  "returned_error (ReconcileVM (example_platform (Inl (ErrNotFound ''vm-0'')) ''STOPPED'' (Inl (ErrRemote ''down'')) (Inl (ErrRemote ''down'')) example_secret)
      (example_ctx None [])) =
     Some (New ''error retrieving bootstrap data: linked icsvm's bootstrapRef is nil'')
   \<and> returned_error (ReconcileVM (example_platform (Inl (ErrNotFound ''vm-0'')) ''STOPPED'' (Inl (ErrRemote ''down'')) (Inl (ErrRemote ''down'')) Map.empty)
      (example_ctx (Some example_bootstrapRef) [])) =
     Some (New ''error retrieving bootstrap data: secret value key is missing'')
   \<and> filter is_CreateVM (issued (ReconcileVM (example_platform (Inl (ErrNotFound ''vm-0'')) ''STOPPED'' (Inl (ErrRemote ''down'')) (Inl (ErrRemote ''down'')) Map.empty)
      (example_ctx (Some example_bootstrapRef) []))) = []"
  using missing_bootstrap[of "example_ctx None []"
      "example_platform (Inl (ErrNotFound ''vm-0'')) ''STOPPED'' (Inl (ErrRemote ''down'')) (Inl (ErrRemote ''down'')) example_secret"
      "ErrNotFound ''vm-0''"]
    missing_bootstrap[of "example_ctx (Some example_bootstrapRef) []"
      "example_platform (Inl (ErrNotFound ''vm-0'')) ''STOPPED'' (Inl (ErrRemote ''down'')) (Inl (ErrRemote ''down'')) Map.empty"
      "ErrNotFound ''vm-0''"]
  by (simp add: example_defs)

text \<open>
  Claim C8 (happy path create). For a new resource (the probe reports not found) whose
  bootstrap secret has the key \<open>value\<close>, \<open>ReconcileVM\<close> issues exactly one create call,
  its payload is the bytes of \<open>value\<close> (decoding the base64 text that \<open>getBootstrapData\<close>
  produced gives the bytes back), and the returned phase is Pending; the error of the
  pass is whatever the create call answers.
\<close>

theorem happy_path_create:
  assumes "calls ctx = []" and "\<not> taskPending P ctx"
    and "findVM_answer P = Inl e" and "isNotFound e"
    and "Spec_BootstrapRef (ICSVM ctx) = Some k"
    and "SecretGet_answer P (Ref_Namespace k) (Ref_Name k) = Inr secretData"
    and "secretData ''value'' = Some v"
  shows "filter is_CreateVM (issued (ReconcileVM P ctx)) = [CallCreateVM v]
       \<and> DecodeString (EncodeToString v) = Inr v
       \<and> phase (ReconcileVM P ctx) = VirtualMachineStatePending
       \<and> returned_error (ReconcileVM P ctx) = CreateVM_answer P v"
proof -
  let ?g = "snd (reconcileInFlightTask P ctx)"
  have "Spec_BootstrapRef (ICSVM ?g) = Some k" using assms(5) by simp
  note d = create_with_value[OF assms(3) this assms(6,7)]
  show ?thesis
    using assms(1)
    by (simp add: ReconcileVM_pass[OF assms(2)] d outcome_defs notifier_filter guard_filter
        DecodeString_EncodeToString)
qed

theorem happy_path_create_witness:
  "filter is_CreateVM (issued (ReconcileVM (example_platform (Inl (ErrNotFound ''vm-0'')) ''STOPPED'' (Inl (ErrRemote ''down'')) (Inl (ErrRemote ''down'')) example_secret)
      (example_ctx (Some example_bootstrapRef) []))) = [CallCreateVM ''#cloud-config'']
   \<and> phase (ReconcileVM (example_platform (Inl (ErrNotFound ''vm-0'')) ''STOPPED'' (Inl (ErrRemote ''down'')) (Inl (ErrRemote ''down'')) example_secret)
      (example_ctx (Some example_bootstrapRef) [])) = VirtualMachineStatePending"
  using happy_path_create[of "example_ctx (Some example_bootstrapRef) []"
      "example_platform (Inl (ErrNotFound ''vm-0'')) ''STOPPED'' (Inl (ErrRemote ''down'')) (Inl (ErrRemote ''down'')) example_secret"
      "ErrNotFound ''vm-0''" example_bootstrapRef example_secret "''#cloud-config''"]
  by (simp add: example_defs)




text \<open>
  Claim C10. In a \<open>ReconcileVM\<close> pass that reaches the power sync with the VM reported
  PoweredOff, if reading the VM's details fails, or reading its host fails, the pass
  returns phase Pending with no error and issues no power-on call.
\<close>

theorem capacity_lookup_failure_is_swallowed:
  assumes "calls ctx = []" and "\<not> taskPending P ctx"
    and "findVM_answer P = Inr vmRef" and "GetNetworkStatus_answer P vmRef = Inr ns"
    and "GetVM_answer P 1 vmRef = Inr vmObj" and "Status vmObj = ''STOPPED''"
    and "(\<exists>e. GetVM_answer P 2 vmRef = Inl e)
       \<or> (\<exists>vm e. GetVM_answer P 2 vmRef = Inr vm \<and> GetHost_answer P (HostID vm) = Inl e)"
  shows "phase (ReconcileVM P ctx) = VirtualMachineStatePending
       \<and> returned_error (ReconcileVM P ctx) = None
       \<and> filter is_PowerOnVM (issued (ReconcileVM P ctx)) = []"
  using reconcile_details_unavailable[OF assms] by blast

theorem capacity_lookup_failure_is_swallowed_witness:
  "phase (ReconcileVM
      (example_platform (Inr ''vm-1'') ''STOPPED'' (Inl (ErrRemote ''host query timed out'')) (Inr \<lparr>TaskId = ''task-on''\<rparr>) example_secret)
      (example_ctx None [])) = VirtualMachineStatePending
   \<and> returned_error (ReconcileVM
      (example_platform (Inr ''vm-1'') ''STOPPED'' (Inl (ErrRemote ''host query timed out'')) (Inr \<lparr>TaskId = ''task-on''\<rparr>) example_secret)
      (example_ctx None [])) = None
   \<and> filter is_PowerOnVM (issued (ReconcileVM
      (example_platform (Inr ''vm-1'') ''STOPPED'' (Inl (ErrRemote ''host query timed out'')) (Inr \<lparr>TaskId = ''task-on''\<rparr>) example_secret)
      (example_ctx None []))) = []"
  using capacity_lookup_failure_is_swallowed[where ctx = "example_ctx None []"
      and P = "example_platform (Inr ''vm-1'') ''STOPPED'' (Inl (ErrRemote ''host query timed out'')) (Inr \<lparr>TaskId = ''task-on''\<rparr>) example_secret"
      and vmRef = "''vm-1''" and ns = "[]" and vmObj = "example_vm ''STOPPED''"]
  by (simp add: example_defs)

end
